theory Spec2Isabelle
  imports Main "HOL-Library.AList"
begin

text \<open>
  A model of BottleSaml, a SAML2 service provider for Bottle: the request identifiers of
  \<open>reqID.py\<close>, the login flow and the attribute extraction of \<open>SamlSP.py\<close>, and the
  route checks of \<open>SamlAuth.py\<close>. Every function of the source is a function here,
  under its own name; what it reads of the world (the session, the clock, the
  environment, the random source) is an argument, what it changes is returned, and an
  exception is the left summand of the result. The libraries it calls (Fernet, minisaml,
  urllib) are arguments as well.
\<close>

section \<open>Python values\<close>

text \<open>
  The session, the route configuration and the collected SAML claims hold dynamically
  typed Python values. The fragment used by the code: \<open>None\<close>, booleans, integers,
  strings (ASCII, one \<open>char\<close> per character), lists, and dictionaries with string keys
  (association lists, in insertion order, looked up with \<open>map_of\<close>).
  A claim name with characters beyond ASCII is held as its UTF-8 bytes: names are only
  compared for equality, and \<open>str.lower\<close>, which follows the Unicode tables of the
  interpreter, is an argument. Floating point values are not part of the model.
\<close>

datatype pyval =
    PNone
  | PBool bool
  | PInt int
  | PStr string
  | PList "pyval list"
  | PDict "(string \<times> pyval) list"

type_synonym py_dict = "(string \<times> pyval) list"

text \<open>Exceptions are values; \<open>err_str\<close> is Python's \<open>str(e)\<close>.\<close>

datatype py_error =
    KeyError string
  | TypeError string
  | AttributeError string
  | InvalidToken
  | PyException string

fun err_str :: "py_error \<Rightarrow> string" where
  "err_str (KeyError k) = [CHR 0x27] @ k @ [CHR 0x27]"
| "err_str (TypeError m) = m"
| "err_str (AttributeError m) = m"
| "err_str InvalidToken = []"
| "err_str (PyException m) = m"

text \<open>Truth value testing (\<open>bool(x)\<close>).\<close>

fun py_truthy :: "pyval \<Rightarrow> bool" where
  "py_truthy PNone = False"
| "py_truthy (PBool b) = b"
| "py_truthy (PInt i) = (i \<noteq> 0)"
| "py_truthy (PStr s) = (s \<noteq> [])"
| "py_truthy (PList xs) = (xs \<noteq> [])"
| "py_truthy (PDict d) = (d \<noteq> [])"

text \<open>
  Python's \<open>==\<close>: a boolean is the integer 0 or 1, lists compare element by element,
  dictionaries compare as key/value sets whatever the insertion order.
\<close>

fun py_eq :: "pyval \<Rightarrow> pyval \<Rightarrow> bool" where
  "py_eq PNone PNone = True"
| "py_eq (PBool a) (PBool b) = (a = b)"
| "py_eq (PBool a) (PInt b) = ((if a then 1 else 0) = b)"
| "py_eq (PInt a) (PBool b) = (a = (if b then 1 else 0))"
| "py_eq (PInt a) (PInt b) = (a = b)"
| "py_eq (PStr a) (PStr b) = (a = b)"
| "py_eq (PList xs) (PList ys) = list_all2 py_eq xs ys"
| "py_eq (PDict d) (PDict e) =
     (length d = length e \<and> (\<forall>(k, v) \<in> set d. \<exists>(k', w) \<in> set e. k' = k \<and> py_eq v w))"
| "py_eq _ _ = False"

text \<open>\<open>x in xs\<close> for a list \<open>xs\<close>.\<close>

definition py_in_list :: "pyval \<Rightarrow> pyval list \<Rightarrow> bool" where
  "py_in_list x xs = list_ex (py_eq x) xs"

text \<open>Subscription \<open>d[k]\<close> with a string key: only a dictionary supports it.\<close>

definition dict_getitem :: "py_dict \<Rightarrow> string \<Rightarrow> py_error + pyval" where
  "dict_getitem d k = (case map_of d k of None \<Rightarrow> Inl (KeyError k) | Some v \<Rightarrow> Inr v)"

fun py_getitem :: "pyval \<Rightarrow> string \<Rightarrow> py_error + pyval" where
  "py_getitem (PDict d) k = dict_getitem d k"
| "py_getitem PNone k = Inl (TypeError ''object is not subscriptable'')"
| "py_getitem (PBool b) k = Inl (TypeError ''object is not subscriptable'')"
| "py_getitem (PInt i) k = Inl (TypeError ''object is not subscriptable'')"
| "py_getitem (PStr s) k = Inl (TypeError ''string indices must be integers'')"
| "py_getitem (PList xs) k = Inl (TypeError ''list indices must be integers or slices'')"

text \<open>The integer a value stands for in a numeric comparison, if any.\<close>

fun py_int :: "pyval \<Rightarrow> int option" where
  "py_int (PInt i) = Some i"
| "py_int (PBool b) = Some (if b then 1 else 0)"
| "py_int _ = None"

text \<open>\<open>x >= n\<close> for an integer \<open>n\<close>: a \<open>TypeError\<close> unless \<open>x\<close> is a number.\<close>

definition py_ge_int :: "pyval \<Rightarrow> int \<Rightarrow> py_error + bool" where
  "py_ge_int x n =
     (case py_int x of
        None \<Rightarrow> Inl (TypeError ''>= not supported'')
      | Some i \<Rightarrow> Inr (n \<le> i))"

section \<open>SamlSP: the authenticated-session predicate\<close>

text \<open>
  \<open>SamlSP.is_authenticated\<close>. The session is \<open>request.session\<close>, \<open>now\<close> is
  \<open>int(time.time())\<close>. \<open>is_authenticated_try\<close> is the body of the \<open>try\<close> block: the
  value of the condition, or the exception raised while evaluating it (\<open>and\<close> does not
  evaluate its right operand when the left one is falsy). The bare \<open>except\<close> turns
  every exception into falling through to \<open>return False\<close>.
\<close>

definition is_authenticated_try :: "py_dict \<Rightarrow> int \<Rightarrow> py_error + bool" where
  "is_authenticated_try sess now =
     (case dict_getitem sess ''username'' of
        Inl e \<Rightarrow> Inl e
      | Inr u \<Rightarrow>
          if \<not> py_truthy u then Inr False
          else (case dict_getitem sess ''attributes'' of
                  Inl e \<Rightarrow> Inl e
                | Inr a \<Rightarrow>
                   (case py_getitem a ''_saml'' of
                      Inl e \<Rightarrow> Inl e
                    | Inr s \<Rightarrow>
                       (case py_getitem s ''expires'' of
                          Inl e \<Rightarrow> Inl e
                        | Inr x \<Rightarrow> py_ge_int x now))))"

definition is_authenticated :: "py_dict \<Rightarrow> int \<Rightarrow> bool" where
  "is_authenticated sess now =
     (case is_authenticated_try sess now of
        Inr True \<Rightarrow> True
      | Inr False \<Rightarrow> False
      | Inl e \<Rightarrow> False)"

text \<open>The expiry stored in a session, when every level of the structure is there.\<close>

definition session_expires :: "py_dict \<Rightarrow> int option" where
  "session_expires sess =
     (case map_of sess ''attributes'' of
        Some (PDict a) \<Rightarrow>
          (case map_of a ''_saml'' of
             Some (PDict s) \<Rightarrow>
               (case map_of s ''expires'' of Some x \<Rightarrow> py_int x | None \<Rightarrow> None)
           | _ \<Rightarrow> None)
      | _ \<Rightarrow> None)"

definition session_username_set :: "py_dict \<Rightarrow> bool" where
  "session_username_set sess =
     (case map_of sess ''username'' of Some u \<Rightarrow> py_truthy u | None \<Rightarrow> False)"

text \<open>
  The session invariant in the specification's words: the username is set and the expiry
  is in the future, that is, strictly later than the current time.
\<close>

definition spec_authenticated :: "py_dict \<Rightarrow> int \<Rightarrow> bool" where
  "spec_authenticated sess now =
     (session_username_set sess \<and>
      (case session_expires sess of Some x \<Rightarrow> now < x | None \<Rightarrow> False))"

section \<open>The request context and the outcome of a callback\<close>

text \<open>
  Bottle's \<open>response\<close> object: the status, the headers and the body. Bottle keeps the
  headers in a dictionary from the name to the list of its values, and sends them name
  by name in the order in which the names came: here they are the list of (name, value)
  pairs in that order. \<open>set_header\<close> (and \<open>headers.update\<close>) gives the name one value
  where the name stands, or at the end when the name is new; \<open>add_header\<close> adds a
  value after the values the name has, or at the end when the name is new. Header names
  are written as Bottle normalises them.
\<close>

record response =
  status :: nat
  headers :: "(string \<times> string) list"
  body :: string

fun replace_header :: "string \<Rightarrow> string \<Rightarrow> (string \<times> string) list \<Rightarrow> (string \<times> string) list" where
  "replace_header name v [] = [(name, v)]"
| "replace_header name v (h # hs) =
     (if fst h = name then (name, v) # filter (\<lambda>x. fst x \<noteq> name) hs
      else h # replace_header name v hs)"

fun append_header :: "string \<Rightarrow> string \<Rightarrow> (string \<times> string) list \<Rightarrow> (string \<times> string) list" where
  "append_header name v [] = [(name, v)]"
| "append_header name v (h # hs) =
     (if fst h = name \<and> name \<notin> fst ` set hs then h # (name, v) # hs
      else h # append_header name v hs)"

definition set_header :: "string \<Rightarrow> string \<Rightarrow> response \<Rightarrow> response" where
  "set_header name v r = r\<lparr>headers := replace_header name v (headers r)\<rparr>"

definition add_header :: "string \<Rightarrow> string \<Rightarrow> response \<Rightarrow> response" where
  "add_header name v r = r\<lparr>headers := append_header name v (headers r)\<rparr>"

definition headers_update :: "(string \<times> string) list \<Rightarrow> response \<Rightarrow> response" where
  "headers_update hs r = fold (\<lambda>h. set_header (fst h) (snd h)) hs r"

text \<open>
  What a request sees: \<open>request.session\<close>, \<open>request.url\<close>, the clock
  \<open>int(time.time())\<close> (one reading for the whole request), the \<open>response\<close> object as
  it is when the callback is entered, and what the operating system's random source
  returns when a request id is minted (\<open>os.urandom\<close> for the Fernet IV,
  \<open>token_urlsafe(8)\<close> for the permissive generator).
\<close>

record request_ctx =
  session :: py_dict
  url :: string
  now :: int
  response :: response
  urandom :: string
  token_urlsafe :: string

text \<open>
  A callback either returns what the resource handler computed, or returns a string or
  the \<open>response\<close> object after changing \<open>response\<close>, or raises.
\<close>

datatype retval = ReturnStr string | ReturnResponse

datatype 'a outcome =
    Handler 'a
  | Reply retval response
  | Raise py_error

section \<open>SamlAuth: the attribute requirement\<close>

text \<open>\<open>test_attrs\<close>: a value that is not a list counts as the list of that one value.\<close>

fun as_list :: "pyval \<Rightarrow> pyval list" where
  "as_list (PList xs) = xs"
| "as_list v = [v]"

fun test_attrs_loop :: "pyval list \<Rightarrow> pyval list \<Rightarrow> bool" where
  "test_attrs_loop [] stand_list = False"
| "test_attrs_loop (chal # chal_list) stand_list =
     (if py_in_list chal stand_list then True else test_attrs_loop chal_list stand_list)"

definition test_attrs :: "pyval \<Rightarrow> pyval \<Rightarrow> bool" where
  "test_attrs challenge standard = test_attrs_loop (as_list challenge) (as_list standard)"

text \<open>
  \<open>SamlSP.my_attrs\<close>: the session's attributes when the session is authenticated, else
  the marker dictionary. An authenticated session's \<open>attributes\<close> is a dictionary (it
  was subscripted with \<open>'_saml'\<close>); the other branches of the \<open>case\<close> are there for
  totality.
\<close>

definition my_attrs :: "py_dict \<Rightarrow> int \<Rightarrow> py_error + py_dict" where
  "my_attrs sess t =
     (if is_authenticated sess t
      then (case dict_getitem sess ''attributes'' of
              Inl e \<Rightarrow> Inl e
            | Inr (PDict a) \<Rightarrow> Inr a
            | Inr _ \<Rightarrow> Inl (TypeError ''attributes is not a dict''))
      else Inr [(''status'', PStr ''unauthenticated'')])"

text \<open>\<open>UnauthorizedError\<close> of SamlAuth: it returns the \<open>response\<close> object.\<close>

definition no_cache_headers :: "(string \<times> string) list" where
  "no_cache_headers =
     [(''Cache-Control'', ''no-cache''),
      (''Pragma'', ''no-cache''),
      (''Expires'', ''Sun, 25 Jul 2021 15:42:14 GMT'')]"

definition UnauthorizedError :: "string \<Rightarrow> response \<Rightarrow> 'a outcome" where
  "UnauthorizedError b r =
     Reply ReturnResponse (headers_update no_cache_headers (r\<lparr>status := 401, body := b\<rparr>))"

text \<open>
  The loop of \<open>authz_required\<close> (and of \<open>authz_required_path\<close>) over the keys of the
  requirement, in order: \<open>Inr True\<close> when every test passed, \<open>Inr False\<close> at the first
  test that fails, \<open>Inl\<close> when a subscription raises.
\<close>

fun authz_loop :: "string list \<Rightarrow> py_dict \<Rightarrow> py_dict \<Rightarrow> py_dict \<Rightarrow> py_error + bool" where
  "authz_loop [] req_attrs mine sess = Inr True"
| "authz_loop (attr # rest) req_attrs mine sess =
     (case dict_getitem req_attrs attr of
        Inl e \<Rightarrow> Inl e
      | Inr v \<Rightarrow>
          if map_of mine attr = None then Inr False
          else (case dict_getitem sess ''attributes'' of
                  Inl e \<Rightarrow> Inl e
                | Inr a \<Rightarrow>
                   (case py_getitem a attr of
                      Inl e \<Rightarrow> Inl e
                    | Inr chal \<Rightarrow>
                        if \<not> test_attrs chal v then Inr False
                        else authz_loop rest req_attrs mine sess)))"

definition authz_required ::
  "py_dict \<Rightarrow> (request_ctx \<Rightarrow> 'a outcome) \<Rightarrow> request_ctx \<Rightarrow> 'a outcome" where
  "authz_required req_attrs f ctx =
     (case my_attrs (session ctx) (now ctx) of
        Inl e \<Rightarrow> Raise e
      | Inr mine \<Rightarrow>
         (case authz_loop (map fst req_attrs) req_attrs mine (session ctx) of
            Inl e \<Rightarrow> Raise e
          | Inr False \<Rightarrow> UnauthorizedError ''Permission not granted'' (response ctx)
          | Inr True \<Rightarrow> f ctx))"

text \<open>
  A route: its rule (the path) and the two configuration entries the plugin reads,
  \<open>None\<close> when the entry is absent. \<open>authz\<close> is a requirement dictionary.
\<close>

record route =
  rule :: string
  authn :: "pyval option"
  authz :: "py_dict option"

definition apply_require_attrs ::
  "(request_ctx \<Rightarrow> 'a outcome) \<Rightarrow> route \<Rightarrow> request_ctx \<Rightarrow> 'a outcome" where
  "apply_require_attrs f rt =
     (case authz rt of
        None \<Rightarrow> f
      | Some req_attrs \<Rightarrow> if req_attrs \<noteq> [] then authz_required req_attrs f else f)"

text \<open>The attributes stored in the session (\<open>session['attributes']\<close>), empty when absent.\<close>

definition session_attributes :: "py_dict \<Rightarrow> py_dict" where
  "session_attributes sess =
     (case map_of sess ''attributes'' of Some (PDict a) \<Rightarrow> a | _ \<Rightarrow> [])"

text \<open>
  The requirement invariant in the specification's words: every required claim is present
  in the attributes, and one of its values there (a scalar counting as a one-element
  list) is among the acceptable values (a scalar counting as a one-element set).
\<close>

definition spec_satisfied :: "py_dict \<Rightarrow> py_dict \<Rightarrow> bool" where
  "spec_satisfied req attrs =
     list_all (\<lambda>k.
        case map_of req k of
          None \<Rightarrow> False
        | Some v \<Rightarrow>
           (case map_of attrs k of
              None \<Rightarrow> False
            | Some c \<Rightarrow> list_ex (\<lambda>x. list_ex (py_eq x) (as_list v)) (as_list c)))
       (map fst req)"

text \<open>A resource handler for the examples.\<close>

definition demo_handler :: "request_ctx \<Rightarrow> string outcome" where
  "demo_handler ctx = Handler ''resource''"

definition demo_response :: response where
  "demo_response = \<lparr>status = 200, headers = [], body = []\<rparr>"

text \<open>
  A session whose authentication expires at second 1000, holding the claim
  \<open>role = admin\<close>, and a request context around a session at a given time.
\<close>

definition stale_session :: py_dict where
  "stale_session =
     [(''username'', PStr ''alice''),
      (''attributes'', PDict [(''role'', PStr ''admin''),
                              (''_saml'', PDict [(''expires'', PInt 1000)])])]"

definition demo_ctx :: "py_dict \<Rightarrow> int \<Rightarrow> request_ctx" where
  "demo_ctx sess t =
     \<lparr>session = sess, url = ''https://sp.example/admin'', now = t,
      response = demo_response, urandom = ''0123456789abcdef'', token_urlsafe = ''q1w2e3r4t5y''\<rparr>"

section \<open>Strings\<close>

text \<open>
  \<open>str.startswith\<close>, \<open>str.find\<close> for one character (the index of the first
  occurrence, or -1) and the slice \<open>s[:i]\<close> (a negative \<open>i\<close> counts from the end), on
  ASCII strings.
\<close>

definition py_startswith :: "string \<Rightarrow> string \<Rightarrow> bool" where
  "py_startswith s p = (take (length p) s = p)"

fun find_from :: "nat \<Rightarrow> string \<Rightarrow> char \<Rightarrow> int" where
  "find_from i [] c = -1"
| "find_from i (x # xs) c = (if x = c then int i else find_from (Suc i) xs c)"

definition py_find :: "string \<Rightarrow> char \<Rightarrow> int" where
  "py_find s c = find_from 0 s c"

definition py_slice_to :: "string \<Rightarrow> int \<Rightarrow> string" where
  "py_slice_to s i = (if 0 \<le> i then take (nat i) s else take (length s - nat (- i)) s)"

section \<open>The validated assertion\<close>

text \<open>
  What minisaml's \<open>validate_response\<close> returns: the subject identifier, the correlation
  id (\<open>None\<close> in an unsolicited response), the issuer, the audience and the named,
  multi-valued claims in document order.
\<close>

record saml_attribute =
  attr_name :: string
  attr_values :: "string list"

record saml_response =
  name_id :: string
  in_response_to :: "string option"
  issuer :: string
  audience :: string
  attributes :: "saml_attribute list"

section \<open>ReqID: request identifiers\<close>

text \<open>
  \<open>cryptography.fernet.Fernet\<close> is a library outside the repository. An instance (a
  key) is a pair of functions: \<open>encrypt\<close> takes the current time, the random IV and the
  plaintext and returns the token, \<open>decrypt\<close> takes the token, the time to live and the
  current time and returns the plaintext or raises \<open>InvalidToken\<close>.
\<close>

record fernet =
  fernet_encrypt :: "int \<Rightarrow> string \<Rightarrow> string \<Rightarrow> string"
  fernet_decrypt :: "string \<Rightarrow> int \<Rightarrow> int \<Rightarrow> py_error + string"

text \<open>
  From the Fernet specification: a token is the URL-safe base64 encoding, with padding, of
  version (1 byte), timestamp (8), IV (16), AES-CBC ciphertext of the PKCS7-padded
  plaintext (the next multiple of 16 above its length) and HMAC (32). Base64 writes
  every 3 bytes as 4 characters and pads the last group with \<open>=\<close>. The alphabet has no
  \<open>=\<close>.
\<close>

definition fernet_token_bytes :: "nat \<Rightarrow> nat" where
  "fernet_token_bytes n = 1 + 8 + 16 + 16 * (n div 16 + 1) + 32"

definition b64_padding :: "nat \<Rightarrow> nat" where
  "b64_padding n = (3 - n mod 3) mod 3"

definition b64_length :: "nat \<Rightarrow> nat" where
  "b64_length n = 4 * ((n + 2) div 3)"

definition fernet_format :: "fernet \<Rightarrow> bool" where
  "fernet_format F =
     (\<forall>t iv m. \<exists>b.
        fernet_encrypt F t iv m = b @ replicate (b64_padding (fernet_token_bytes (length m))) (CHR ''='') \<and>
        CHR ''='' \<notin> set b \<and>
        length (fernet_encrypt F t iv m) = b64_length (fernet_token_bytes (length m)))"

text \<open>
  Authenticated encryption, idealised: only a token that \<open>encrypt\<close> produced for a
  plaintext decrypts to that plaintext.
\<close>

definition fernet_authentic :: "fernet \<Rightarrow> bool" where
  "fernet_authentic F =
     (\<forall>s ttl t m. fernet_decrypt F s ttl t = Inr m \<longrightarrow> (\<exists>t0 iv. s = fernet_encrypt F t0 iv m))"

text \<open>
  The \<open>ReqID\<close> object. \<open>reqid_idpok\<close> selects the pair of methods bound at construction;
  the key, the id and the time to live exist in strict mode only (the fields are unused
  otherwise). The id is kept as the string that \<open>id.encode('utf-8')\<close> encodes.
\<close>

record ReqID =
  reqid_idpok :: bool
  reqid_f :: fernet
  reqid_id :: string
  reqid_ttl :: int

text \<open>\<open>DEBUG = os.getenv('DEBUG', False)\<close>, from the value of the environment variable.\<close>

definition DEBUG :: "string option \<Rightarrow> pyval" where
  "DEBUG env = (case env of None \<Rightarrow> PBool False | Some s \<Rightarrow> PStr s)"

definition idpok_new_requestID :: "string \<Rightarrow> string" where
  "idpok_new_requestID rnd = ''ID'' @ rnd"

definition idpok_validate_requestID :: "string option \<Rightarrow> py_error + bool" where
  "idpok_validate_requestID reqid = Inr True"

definition noidp_new_requestID :: "ReqID \<Rightarrow> int \<Rightarrow> string \<Rightarrow> string" where
  "noidp_new_requestID self t iv =
     (let reqid = fernet_encrypt (reqid_f self) t iv (reqid_id self)
      in ''Id'' @ py_slice_to reqid (py_find reqid (CHR ''='')))"

text \<open>
  The body of the \<open>try\<close> block of \<open>__noidp_validate_requestID\<close>: \<open>Inr True\<close> when it
  returns true, \<open>Inr False\<close> when it falls through, \<open>Inl\<close> when it raises. A correlation
  id that is \<open>None\<close> has no \<open>startswith\<close>. The walrus test needs a non-empty plaintext.
\<close>

definition pad_base64 :: "string \<Rightarrow> string" where
  "pad_base64 r = r @ replicate (4 - length r mod 4) (CHR ''='')"

definition noidp_validate_try :: "ReqID \<Rightarrow> int \<Rightarrow> string option \<Rightarrow> py_error + bool" where
  "noidp_validate_try self t reqid =
     (case reqid of
        None \<Rightarrow> Inl (AttributeError ''NoneType object has no attribute startswith'')
      | Some r \<Rightarrow>
          if \<not> py_startswith r ''Id'' then Inl (PyException ''Invalid Request ID'')
          else
            (case fernet_decrypt (reqid_f self) (pad_base64 (drop 2 r)) (reqid_ttl self) t of
               Inl e \<Rightarrow> Inl e
             | Inr mess \<Rightarrow> Inr (mess \<noteq> [] \<and> mess = reqid_id self)))"

definition noidp_validate_requestID ::
  "ReqID \<Rightarrow> string option \<Rightarrow> int \<Rightarrow> string option \<Rightarrow> py_error + bool" where
  "noidp_validate_requestID self env t reqid =
     (case noidp_validate_try self t reqid of
        Inr b \<Rightarrow> Inr b
      | Inl e \<Rightarrow> if py_truthy (DEBUG env) then Inl e else Inr False)"

definition new_requestID :: "ReqID \<Rightarrow> int \<Rightarrow> string \<Rightarrow> string \<Rightarrow> string" where
  "new_requestID self t iv rnd =
     (if reqid_idpok self then idpok_new_requestID rnd else noidp_new_requestID self t iv)"

definition validate_requestID ::
  "ReqID \<Rightarrow> string option \<Rightarrow> int \<Rightarrow> string option \<Rightarrow> py_error + bool" where
  "validate_requestID self env t reqid =
     (if reqid_idpok self then idpok_validate_requestID reqid
      else noidp_validate_requestID self env t reqid)"

text \<open>
  A stand-in key for the examples, with the token format of Fernet and no cryptography:
  every token is a run of \<open>A\<close> of the right length and padding, and the only token that
  decrypts is the one for the plaintext \<open>ReqID\<close>.
\<close>

definition demo_encrypt :: "int \<Rightarrow> string \<Rightarrow> string \<Rightarrow> string" where
  "demo_encrypt t iv m =
     replicate (b64_length (fernet_token_bytes (length m)) - b64_padding (fernet_token_bytes (length m))) (CHR ''A'')
       @ replicate (b64_padding (fernet_token_bytes (length m))) (CHR ''='')"

definition demo_decrypt :: "string \<Rightarrow> int \<Rightarrow> int \<Rightarrow> py_error + string" where
  "demo_decrypt s life t =
     (if s = demo_encrypt 0 [] ''ReqID'' then Inr ''ReqID'' else Inl InvalidToken)"

definition demo_fernet :: fernet where
  "demo_fernet = \<lparr>fernet_encrypt = demo_encrypt, fernet_decrypt = demo_decrypt\<rparr>"

definition ReqID_init :: "bool \<Rightarrow> string \<Rightarrow> int \<Rightarrow> fernet \<Rightarrow> ReqID" where
  "ReqID_init idpok ident life key =
     \<lparr>reqid_idpok = idpok, reqid_f = key, reqid_id = ident, reqid_ttl = life\<rparr>"

section \<open>SamlSP: configuration, extraction, login\<close>

text \<open>
  The configuration dictionary, one field per key, \<open>None\<close> for an absent optional key,
  and the object \<open>SamlSP.__init__\<close> builds from it. The allow-list is lower-cased
  there with \<open>str.lower\<close>, the first argument \<open>lower\<close>: Python lower-cases by the
  Unicode tables of the interpreter, which are not part of the repository. \<open>login_hooks\<close> holds the hooks appended with \<open>add_login_hook\<close>; the first hook
  of the source, \<open>__build_attrs_list\<close>, always runs before them. A hook takes and
  returns (username, attributes) or raises; a hook whose result cannot be unpacked into
  two values counts as raising. The key that \<open>Fernet.generate_key\<close> draws and the
  environment variable \<open>ACS_ENDPOINT\<close> are arguments.
\<close>

type_synonym login_hook = "pyval \<times> pyval \<Rightarrow> py_error + pyval \<times> pyval"

record saml_config =
  cfg_saml_endpoint :: string
  cfg_spid :: string
  cfg_issuer :: string
  cfg_force_reauth :: "bool option"
  cfg_user_attr :: "string option"
  cfg_assertions :: "string list option"
  cfg_acs_url :: "string option"
  cfg_certificate :: string
  cfg_auth_duration :: "int option"
  cfg_idp_ok :: "bool option"
  cfg_reqid_life :: "int option"

record SamlSP =
  saml_endpoint :: string
  saml_audience :: string
  saml_issuer :: string
  force_reauth :: bool
  attr_uid :: string
  saml_attrs :: "string list"
  acs_url :: "string option"
  saml_certificate :: string
  auth_duration :: int
  login_hooks :: "login_hook list"
  idp_ok :: bool
  reqid :: ReqID

definition SamlSP_init ::
  "(string \<Rightarrow> string) \<Rightarrow> saml_config \<Rightarrow> string option \<Rightarrow> fernet \<Rightarrow> SamlSP" where
  "SamlSP_init lower config acs_env key =
     \<lparr>saml_endpoint = cfg_saml_endpoint config,
      saml_audience = cfg_spid config,
      saml_issuer = cfg_issuer config,
      force_reauth = (case cfg_force_reauth config of None \<Rightarrow> False | Some b \<Rightarrow> b),
      attr_uid = (case cfg_user_attr config of None \<Rightarrow> ''name_id'' | Some a \<Rightarrow> a),
      saml_attrs = map lower (case cfg_assertions config of None \<Rightarrow> [] | Some l \<Rightarrow> l),
      acs_url = (case acs_env of None \<Rightarrow> cfg_acs_url config | Some u \<Rightarrow> Some u),
      saml_certificate = cfg_certificate config,
      auth_duration = (case cfg_auth_duration config of None \<Rightarrow> 3600 | Some d \<Rightarrow> d),
      login_hooks = [],
      idp_ok = (case cfg_idp_ok config of None \<Rightarrow> True | Some b \<Rightarrow> b),
      reqid = ReqID_init (case cfg_idp_ok config of None \<Rightarrow> True | Some b \<Rightarrow> b) ''ReqID''
                (case cfg_reqid_life config of None \<Rightarrow> 60 | Some l \<Rightarrow> l) key\<rparr>"

definition add_login_hook :: "login_hook \<Rightarrow> SamlSP \<Rightarrow> SamlSP" where
  "add_login_hook h self = self\<lparr>login_hooks := login_hooks self @ [h]\<rparr>"

text \<open>
  \<open>__build_attrs_list\<close>. The loop over the claims of the assertion: a claim whose name is
  in \<open>saml_attrs\<close> is stored as its single value, as the list of its values, or as
  \<open>None\<close> when it has no value; a later claim of the same name replaces an earlier one.
\<close>

definition dict_setitem :: "string \<Rightarrow> pyval \<Rightarrow> py_dict \<Rightarrow> py_dict" where
  "dict_setitem k v d = AList.update k v d"

definition stored_value :: "string list \<Rightarrow> pyval" where
  "stored_value vs =
     (if length vs = 1 then PStr (hd vs)
      else if length vs > 1 then PList (map PStr vs)
      else PNone)"

fun collect_attrs :: "string list \<Rightarrow> saml_attribute list \<Rightarrow> py_dict \<Rightarrow> py_dict" where
  "collect_attrs allow [] attrs = attrs"
| "collect_attrs allow (a # rest) attrs =
     collect_attrs allow rest
       (if attr_name a \<in> set allow
        then dict_setitem (attr_name a) (stored_value (attr_values a)) attrs
        else attrs)"

definition build_attrs_list ::
  "SamlSP \<Rightarrow> int \<Rightarrow> pyval \<Rightarrow> saml_response \<Rightarrow> pyval \<times> py_dict" where
  "build_attrs_list self t username saml_resp =
     (let attrs = collect_attrs (saml_attrs self) (attributes saml_resp) [];
          username' = (case map_of attrs (attr_uid self) of Some v \<Rightarrow> v | None \<Rightarrow> username);
          attrs' = (if map_of attrs ''username'' = None
                    then dict_setitem ''username'' username' attrs else attrs);
          attrs'' = dict_setitem ''_saml''
                      (PDict [(''name_id'', PStr (name_id saml_resp)),
                              (''request_id'',
                                 (case in_response_to saml_resp of
                                    None \<Rightarrow> PNone | Some r \<Rightarrow> PStr r)),
                              (''issuer'', PStr (issuer saml_resp)),
                              (''audience'', PStr (audience saml_resp)),
                              (''expires'', PInt (t + auth_duration self))])
                      attrs'
      in (username', attrs''))"

fun run_hooks :: "login_hook list \<Rightarrow> pyval \<times> pyval \<Rightarrow> py_error + pyval \<times> pyval" where
  "run_hooks [] ua = Inr ua"
| "run_hooks (h # hs) ua = (case h ua of Inl e \<Rightarrow> Inl e | Inr ua' \<Rightarrow> run_hooks hs ua')"

text \<open>
  The loop over \<open>self.login_hooks\<close> in the callback: it starts from the subject
  identifier and the assertion, and the first hook turns the assertion into a dictionary.
\<close>

definition run_login_hooks :: "SamlSP \<Rightarrow> int \<Rightarrow> saml_response \<Rightarrow> py_error + pyval \<times> pyval" where
  "run_login_hooks self t saml_resp =
     (case build_attrs_list self t (PStr (name_id saml_resp)) saml_resp of
        (u, a) \<Rightarrow> run_hooks (login_hooks self) (u, PDict a))"

text \<open>
  The library functions the callbacks call: minisaml's \<open>validate_response\<close> (data,
  certificate, expected audience) and \<open>get_request_redirect_url\<close> (endpoint, expected
  audience, ACS URL, force re-authentication, request id, relay state), urllib's
  \<open>parse_qs\<close> and \<open>urlencode\<close>.
\<close>

record library =
  validate_response :: "string \<Rightarrow> string \<Rightarrow> string \<Rightarrow> py_error + saml_response"
  get_request_redirect_url ::
    "string \<Rightarrow> string \<Rightarrow> string option \<Rightarrow> bool \<Rightarrow> string \<Rightarrow> string option \<Rightarrow> string"
  parse_qs :: "string \<Rightarrow> (string \<times> string list) list"
  urlencode :: "(string \<times> string) list \<Rightarrow> string"

text \<open>\<open>response_error\<close> and \<open>set_no_cache_headers\<close> of SamlSP.\<close>

definition response_error :: "nat \<Rightarrow> response \<Rightarrow> response" where
  "response_error st r = headers_update no_cache_headers (r\<lparr>status := st\<rparr>)"

definition set_no_cache_headers :: "response \<Rightarrow> response" where
  "set_no_cache_headers r =
     add_header ''Expires'' ''Sun, 25 Jul 2021 15:42:14 GMT''
       (add_header ''Pragma'' ''no-cache''
         (add_header ''Cache-Control'' ''must-revalidate''
           (add_header ''Cache-Control'' ''no-cache'' r)))"

text \<open>
  \<open>initiate_login(force_reauth, userhint, **kwargs)\<close>: the redirect to the IdP. The log
  line is not part of the model.
\<close>

definition initiate_login ::
  "SamlSP \<Rightarrow> library \<Rightarrow> bool \<Rightarrow> string option \<Rightarrow> (string \<times> string) list \<Rightarrow>
     request_ctx \<Rightarrow> 'a outcome" where
  "initiate_login self lib force userhint kwargs ctx =
     (let request_id = new_requestID (reqid self) (now ctx) (urandom ctx) (token_urlsafe ctx);
          relay_state = (if kwargs \<noteq> [] then Some (urlencode lib kwargs) else None);
          u = get_request_redirect_url lib (saml_endpoint self) (saml_audience self)
                (acs_url self) (force_reauth self \<or> force) request_id relay_state;
          u' = (case userhint of
                  None \<Rightarrow> u
                | Some h \<Rightarrow>
                    if h \<noteq> []
                    then u @ (if CHR ''?'' \<in> set u then ''&'' else ''?'') @ ''login_hint='' @ h
                    else u)
      in Reply (ReturnStr [])
           (set_no_cache_headers (set_header ''Location'' u' ((response ctx)\<lparr>status := 302\<rparr>))))"

text \<open>
  The assertion consumer service. The form fields of the POST, and the result: what the
  callback returns or raises, the session, the \<open>response\<close> object and the lines logged.
  The session passed in is the one \<open>is_authenticated\<close> reads. \<open>str_opt\<close> and
  \<open>str_val\<close> format a correlation id and a username in a log line (a username that
  is not a string is abbreviated).
\<close>

record acs_form =
  form_SAMLResponse :: "string option"
  form_RelayState :: "string option"

record acs_result =
  returned :: "py_error + string"
  session_after :: py_dict
  response_after :: response
  logged :: "string list"

definition str_opt :: "string option \<Rightarrow> string" where
  "str_opt x = (case x of None \<Rightarrow> ''None'' | Some s \<Rightarrow> s)"

definition str_val :: "pyval \<Rightarrow> string" where
  "str_val v = (case v of PStr s \<Rightarrow> s | _ \<Rightarrow> ''<value>'')"

definition acs_error :: "nat \<Rightarrow> string \<Rightarrow> py_dict \<Rightarrow> string list \<Rightarrow> request_ctx \<Rightarrow> acs_result" where
  "acs_error st msg sess lg ctx =
     \<lparr>returned = Inr msg, session_after = sess,
      response_after = response_error st (response ctx), logged = lg\<rparr>"

definition finish_saml_login_work ::
  "SamlSP \<Rightarrow> library \<Rightarrow> string option \<Rightarrow> acs_form \<Rightarrow> request_ctx \<Rightarrow> acs_result" where
  "finish_saml_login_work self lib env form ctx =
     (if is_authenticated (session ctx) (now ctx)
      then acs_error 400 ''ACS invoked for authenticated user'' (session ctx) [] ctx
      else
        (let relay_state =
               parse_qs lib (case form_RelayState form of None \<Rightarrow> [] | Some s \<Rightarrow> s)
         in case (case form_SAMLResponse form of
                    None \<Rightarrow> Inl (KeyError ''SAMLResponse'')
                  | Some raw \<Rightarrow>
                      validate_response lib raw (saml_certificate self) (saml_audience self)) of
              Inl e \<Rightarrow>
                (let msg = ''SAML: response_validation failed: '' @ err_str e
                 in acs_error 400 msg (session ctx) [msg] ctx)
            | Inr saml_resp \<Rightarrow>
                (let lg1 = [''SAML: ACS received SAMLResponse to ''
                              @ str_opt (in_response_to saml_resp)]
                 in case validate_requestID (reqid self) env (now ctx)
                           (in_response_to saml_resp) of
                      Inl e \<Rightarrow>
                        \<lparr>returned = Inl e, session_after = session ctx,
                         response_after = response ctx, logged = lg1\<rparr>
                    | Inr False \<Rightarrow>
                        (let msg = ''SAML: Invalid Request: \"''
                                     @ str_opt (in_response_to saml_resp) @ ''\"''
                         in acs_error 400 msg (session ctx) (lg1 @ [msg]) ctx)
                    | Inr True \<Rightarrow>
                        if issuer saml_resp \<noteq> saml_issuer self
                        then
                          (let msg = ''SAML: Issuer mismatch: rcvd \"'' @ issuer saml_resp
                                       @ ''\" expected \"'' @ saml_issuer self @ ''\"''
                           in acs_error 400 msg (session ctx) (lg1 @ [msg]) ctx)
                        else
                          (case run_login_hooks self (now ctx) saml_resp of
                             Inl e \<Rightarrow>
                               (let msg = ''SAML: login_hooks failed: '' @ err_str e
                                in acs_error 403 msg [] (lg1 @ [msg]) ctx)
                           | Inr (username, attrs) \<Rightarrow>
                               (let sess = dict_setitem ''username'' username
                                             (dict_setitem ''attributes'' attrs (session ctx));
                                    lg2 = lg1 @ [''SAML: User \"'' @ name_id saml_resp
                                                   @ ''\" authenticated'']
                                in case (case map_of relay_state ''next'' of
                                           None \<Rightarrow> Inr ''/''
                                         | Some [] \<Rightarrow> Inl (PyException ''list index out of range'')
                                         | Some (n # ns) \<Rightarrow> Inr n) of
                                     Inl e \<Rightarrow>
                                       \<lparr>returned = Inl e, session_after = sess,
                                        response_after = response ctx, logged = lg2\<rparr>
                                   | Inr target \<Rightarrow>
                                       \<lparr>returned = Inr [], session_after = sess,
                                        response_after =
                                          set_no_cache_headers
                                            (add_header ''Location'' target
                                               ((response ctx)\<lparr>status := 302\<rparr>)),
                                        logged = lg2 @ [''SAML: Authenticated user ''
                                                   @ str_val username @ '' redirected to ''
                                                   @ target]\<rparr>)))))"

section \<open>SamlAuth: the plugin\<close>

record SamlAuth =
  saml :: SamlSP
  authn_all_routes :: bool
  authz_by_prefix :: "(string \<times> py_dict) list"

text \<open>\<open>auth_required\<close>, the wrapper \<open>__apply_require_authn\<close> installs.\<close>

definition auth_required ::
  "SamlAuth \<Rightarrow> library \<Rightarrow> (request_ctx \<Rightarrow> 'a outcome) \<Rightarrow> request_ctx \<Rightarrow> 'a outcome" where
  "auth_required self lib f ctx =
     (if is_authenticated (session ctx) (now ctx) then f ctx
      else initiate_login (saml self) lib False None [(''next'', url ctx)] ctx)"

definition apply_require_authn ::
  "SamlAuth \<Rightarrow> library \<Rightarrow> (request_ctx \<Rightarrow> 'a outcome) \<Rightarrow> route \<Rightarrow> request_ctx \<Rightarrow> 'a outcome" where
  "apply_require_authn self lib f rt =
     (if authn rt = Some (PBool False) then f
      else if authn_all_routes self
              \<or> (case authn rt of None \<Rightarrow> False | Some v \<Rightarrow> py_truthy v)
              \<or> (case authz rt of None \<Rightarrow> False | Some d \<Rightarrow> d \<noteq> [])
      then auth_required self lib f
      else f)"

text \<open>
  \<open>__apply_prefix_attrs\<close>: in opt-out mode the requirements of every matching prefix
  are merged with \<open>dict.update\<close>, in the order of \<open>authz_by_prefix\<close>. Its wrapper has
  the body of \<open>authz_required\<close>.
\<close>

definition dict_update :: "py_dict \<Rightarrow> py_dict \<Rightarrow> py_dict" where
  "dict_update other d = fold (\<lambda>kv. dict_setitem (fst kv) (snd kv)) other d"

definition prefix_req_attrs :: "SamlAuth \<Rightarrow> route \<Rightarrow> py_dict" where
  "prefix_req_attrs self rt =
     (if authn_all_routes self
      then fold (\<lambda>pr acc. if py_startswith (rule rt) (fst pr) then dict_update (snd pr) acc else acc)
             (authz_by_prefix self) []
      else [])"

definition apply_prefix_attrs ::
  "SamlAuth \<Rightarrow> (request_ctx \<Rightarrow> 'a outcome) \<Rightarrow> route \<Rightarrow> request_ctx \<Rightarrow> 'a outcome" where
  "apply_prefix_attrs self f rt =
     (if prefix_req_attrs self rt = [] then f
      else authz_required (prefix_req_attrs self rt) f)"

text \<open>\<open>apply\<close>: the checks of \<open>apply_checks\<close> wrap the handler one after the other.\<close>

definition apply_checks ::
  "SamlAuth \<Rightarrow> library \<Rightarrow>
     ((request_ctx \<Rightarrow> 'a outcome) \<Rightarrow> route \<Rightarrow> request_ctx \<Rightarrow> 'a outcome) list" where
  "apply_checks self lib =
     [apply_require_attrs, apply_prefix_attrs self, apply_require_authn self lib]"

definition apply_plugin ::
  "SamlAuth \<Rightarrow> library \<Rightarrow> (request_ctx \<Rightarrow> 'a outcome) \<Rightarrow> route \<Rightarrow> request_ctx \<Rightarrow> 'a outcome" where
  "apply_plugin self lib f rt = fold (\<lambda>apply_check nextf. apply_check nextf rt) (apply_checks self lib) f"

section \<open>Examples\<close>

text \<open>
  A stand-in for \<open>str.lower\<close> in the examples: it lower-cases the letters \<open>A\<close> to \<open>Z\<close>
  and leaves every other byte as it is, which is what \<open>str.lower\<close> does on an ASCII
  string and on a character that has no lower-case form.
\<close>

definition ascii_lower_char :: "char \<Rightarrow> char" where
  "ascii_lower_char c =
     (if 65 \<le> (of_char c :: nat) \<and> (of_char c :: nat) \<le> 90
      then char_of ((of_char c :: nat) + 32) else c)"

definition ascii_lower :: "string \<Rightarrow> string" where
  "ascii_lower s = map ascii_lower_char s"

text \<open>A configuration, the object built from it, and an assertion, for the examples.\<close>

definition demo_config :: saml_config where
  "demo_config =
     \<lparr>cfg_saml_endpoint = ''https://idp.example/sso'', cfg_spid = ''urn:sp'',
      cfg_issuer = ''urn:idp'', cfg_force_reauth = None, cfg_user_attr = Some ''givenname'',
      cfg_assertions = Some [''GivenName'', ''groups''], cfg_acs_url = Some ''https://sp.example/saml/acs'',
      cfg_certificate = ''PEM'', cfg_auth_duration = None, cfg_idp_ok = Some False,
      cfg_reqid_life = None\<rparr>"

definition demo_sp :: SamlSP where
  "demo_sp = SamlSP_init ascii_lower demo_config None demo_fernet"

definition demo_assertion :: saml_response where
  "demo_assertion =
     \<lparr>name_id = ''subject-1'', in_response_to = Some (noidp_new_requestID (reqid demo_sp) 0 []),
      issuer = ''urn:idp'', audience = ''urn:sp'',
      attributes = [\<lparr>attr_name = ''givenname'', attr_values = [''Alice'']\<rparr>,
                    \<lparr>attr_name = ''Groups'', attr_values = [''staff'', ''admin'']\<rparr>,
                    \<lparr>attr_name = ''mail'', attr_values = [''alice@example.org'']\<rparr>]\<rparr>"

text \<open>
  The character U+03D2, GREEK UPSILON WITH HOOK SYMBOL, in UTF-8. Unicode classes it as an
  upper-case letter (general category Lu, \<open>str.isupper\<close> is true of it) and gives it no
  lower-case form: \<open>str.lower\<close> returns it unchanged. A configuration that asks for the
  claim of that name, and an assertion that carries it.
\<close>

definition upsilon_hook :: string where
  "upsilon_hook = [CHR 0xCF, CHR 0x92]"

definition upsilon_config :: saml_config where
  "upsilon_config = demo_config\<lparr>cfg_assertions := Some [upsilon_hook]\<rparr>"

definition upsilon_assertion :: saml_response where
  "upsilon_assertion =
     demo_assertion\<lparr>attributes := [\<lparr>attr_name = upsilon_hook, attr_values = [''x'']\<rparr>]\<rparr>"

text \<open>An id of 32 characters.\<close>

definition long_id :: string where
  "long_id = ''0123456789abcdef0123456789abcdef''"

text \<open>
  Stand-ins for the library functions, a form carrying the response the stand-in
  validator accepts, a login hook that raises, and a plugin in opt-out mode.
\<close>

definition demo_validate_response :: "string \<Rightarrow> string \<Rightarrow> string \<Rightarrow> py_error + saml_response" where
  "demo_validate_response raw cert aud =
     (if raw = ''signed-response'' then Inr demo_assertion
      else Inl (PyException ''invalid signature''))"

definition demo_redirect_url ::
  "string \<Rightarrow> string \<Rightarrow> string option \<Rightarrow> bool \<Rightarrow> string \<Rightarrow> string option \<Rightarrow> string" where
  "demo_redirect_url ep aud acs force rid relay =
     ep @ ''?SAMLRequest='' @ rid @ (case relay of None \<Rightarrow> [] | Some r \<Rightarrow> ''&RelayState='' @ r)"

definition demo_parse_qs :: "string \<Rightarrow> (string \<times> string list) list" where
  "demo_parse_qs s = (if s = [] then [] else [(''next'', [s])])"

definition demo_urlencode :: "(string \<times> string) list \<Rightarrow> string" where
  "demo_urlencode kvs = concat (map (\<lambda>kv. fst kv @ ''='' @ snd kv) kvs)"

definition demo_library :: library where
  "demo_library =
     \<lparr>validate_response = demo_validate_response,
      get_request_redirect_url = demo_redirect_url,
      parse_qs = demo_parse_qs,
      urlencode = demo_urlencode\<rparr>"

definition demo_form :: acs_form where
  "demo_form = \<lparr>form_SAMLResponse = Some ''signed-response'', form_RelayState = None\<rparr>"

definition demo_failing_hook :: login_hook where
  "demo_failing_hook ua = Inl (PyException ''unknown user'')"

definition demo_auth :: SamlAuth where
  "demo_auth = \<lparr>saml = demo_sp, authn_all_routes = True, authz_by_prefix = []\<rparr>"

section \<open>Properties\<close>

subsection \<open>Subscription and the authenticated-session predicate\<close>

lemma dict_getitem_Inr: "dict_getitem d k = Inr x \<longleftrightarrow> map_of d k = Some x"
  by (simp add: dict_getitem_def split: option.splits)

lemma dict_getitem_Inl: "dict_getitem d k = Inl e \<longleftrightarrow> map_of d k = None \<and> e = KeyError k"
  by (auto simp: dict_getitem_def split: option.splits)

lemma py_getitem_Inr: "py_getitem v k = Inr x \<longleftrightarrow> (\<exists>d. v = PDict d \<and> map_of d k = Some x)"
  by (cases v) (simp_all add: dict_getitem_Inr)

lemma py_ge_int_Inr: "py_ge_int x n = Inr b \<longleftrightarrow> (\<exists>i. py_int x = Some i \<and> b = (n \<le> i))"
  by (auto simp: py_ge_int_def split: option.splits)

lemma is_authenticated_try_True:
  "is_authenticated_try sess t = Inr True \<longleftrightarrow>
     (\<exists>u a s x i. map_of sess ''username'' = Some u \<and> py_truthy u \<and>
        map_of sess ''attributes'' = Some (PDict a) \<and>
        map_of a ''_saml'' = Some (PDict s) \<and>
        map_of s ''expires'' = Some x \<and> py_int x = Some i \<and> t \<le> i)"
  unfolding is_authenticated_try_def
  by (auto simp: dict_getitem_Inr dict_getitem_Inl py_getitem_Inr py_ge_int_Inr split: sum.splits)

lemma is_authenticated_eq_try:
  "is_authenticated sess t \<longleftrightarrow> is_authenticated_try sess t = Inr True"
  by (simp add: is_authenticated_def split: sum.splits bool.splits)

lemma is_authenticated_attributes:
  "is_authenticated sess t \<Longrightarrow> \<exists>a. map_of sess ''attributes'' = Some (PDict a)"
  by (auto simp: is_authenticated_eq_try is_authenticated_try_True)

text \<open>
  Claim C2, as the code has it. \<open>is_authenticated\<close> is true exactly when the session
  has a truthy username and its stored expiry is a number not earlier than the current
  second (\<open>expires >= int(time.time())\<close>: a session whose expiry equals the current
  second still counts). Every other session state (a missing key, a value of the wrong
  type at any level, an earlier expiry) gives false, and an exception raised inside the
  \<open>try\<close> block never reaches the caller: the result is false.
\<close>

theorem is_authenticated_iff:
  "(is_authenticated sess t \<longleftrightarrow>
      session_username_set sess \<and> (\<exists>x. session_expires sess = Some x \<and> t \<le> x)) \<and>
   (\<forall>e. is_authenticated_try sess t = Inl e \<longrightarrow> is_authenticated sess t = False)"
proof -
  have "is_authenticated_try sess t = Inr True \<longleftrightarrow>
      session_username_set sess \<and> (\<exists>x. session_expires sess = Some x \<and> t \<le> x)"
    unfolding is_authenticated_try_True session_username_set_def session_expires_def
    by (auto split: option.splits pyval.splits)
  moreover have "\<forall>e. is_authenticated_try sess t = Inl e \<longrightarrow> is_authenticated sess t = False"
    by (simp add: is_authenticated_def)
  ultimately show ?thesis
    by (simp add: is_authenticated_eq_try)
qed

text \<open>
  The theorem at a session expiring at second 1000, read at seconds 1000 and 1001, and at
  the empty session, where the subscription \<open>sess['username']\<close> raises.
\<close>

theorem is_authenticated_iff_witness:
  "is_authenticated stale_session 1000 \<and> \<not> is_authenticated stale_session 1001 \<and>
   is_authenticated_try [] 5 = Inl (KeyError ''username'') \<and> \<not> is_authenticated [] 5"
proof -
  have a: "session_username_set stale_session"
    by (simp add: session_username_set_def stale_session_def)
  have b: "session_expires stale_session = Some 1000"
    by (simp add: session_expires_def stale_session_def)
  have c: "is_authenticated_try [] 5 = Inl (KeyError ''username'')"
    by (simp add: is_authenticated_try_def dict_getitem_def)
  show ?thesis
    using is_authenticated_iff [of stale_session 1000] is_authenticated_iff [of stale_session 1001]
      is_authenticated_iff [of "[]" 5] a b c
    by (simp add: session_username_set_def)
qed

text \<open>
  Claim C2 as stated asks for an expiry in the future. At second 1000 the expiry 1000 is
  not in the future, and the session is authenticated all the same.
\<close>

theorem is_authenticated_strict_counterexample:
  "is_authenticated stale_session 1000 \<and> \<not> spec_authenticated stale_session 1000"
  by (simp add: is_authenticated_def is_authenticated_try_def dict_getitem_def py_ge_int_def
      spec_authenticated_def session_expires_def session_username_set_def stale_session_def)

subsection \<open>The attribute requirement\<close>

lemma test_attrs_loop_ex:
  "test_attrs_loop cs st = list_ex (\<lambda>x. list_ex (py_eq x) st) cs"
  by (induction cs) (auto simp: py_in_list_def)

lemma authz_loop_auth:
  assumes "map_of sess ''attributes'' = Some (PDict a)"
  shows "set ks \<subseteq> fst ` set req \<Longrightarrow> authz_loop ks req a sess =
     Inr (list_all (\<lambda>k.
        case map_of req k of
          None \<Rightarrow> False
        | Some v \<Rightarrow>
           (case map_of a k of
              None \<Rightarrow> False
            | Some c \<Rightarrow> list_ex (\<lambda>x. list_ex (py_eq x) (as_list v)) (as_list c))) ks)"
proof (induction ks)
  case Nil
  then show ?case by simp
next
  case (Cons k ks)
  then obtain v where v: "map_of req k = Some v"
    by (metis domD dom_map_of_conv_image_fst insert_subset list.simps(15))
  show ?case using Cons assms v
    by (auto simp: dict_getitem_def test_attrs_def test_attrs_loop_ex split: option.splits)
qed

lemma authz_required_authenticated:
  assumes "is_authenticated (session ctx) (now ctx)"
  shows "authz_required req f ctx =
     (if spec_satisfied req (session_attributes (session ctx)) then f ctx
      else UnauthorizedError ''Permission not granted'' (response ctx))"
proof -
  from assms obtain a where a: "map_of (session ctx) ''attributes'' = Some (PDict a)"
    using is_authenticated_attributes by blast
  have m: "my_attrs (session ctx) (now ctx) = Inr a"
    using assms a by (simp add: my_attrs_def dict_getitem_def)
  have l: "authz_loop (map fst req) req a (session ctx) = Inr (spec_satisfied req a)"
    unfolding spec_satisfied_def by (rule authz_loop_auth [OF a]) simp
  show ?thesis
    using a by (simp add: authz_required_def m l session_attributes_def)
qed

lemma UnauthorizedError_reply:
  "\<exists>r. UnauthorizedError b r0 = Reply ReturnResponse r \<and> status r = 401 \<and> body r = b"
  by (simp add: UnauthorizedError_def headers_update_def no_cache_headers_def set_header_def)

lemma authz_loop_marker:
  assumes "''status'' \<notin> set ks" and "set ks \<subseteq> fst ` set req"
  shows "authz_loop ks req [(''status'', PStr ''unauthenticated'')] sess = Inr (ks = [])"
proof (cases ks)
  case Nil
  then show ?thesis by simp
next
  case (Cons k rest)
  with assms obtain v where "map_of req k = Some v"
    by (metis domD dom_map_of_conv_image_fst insert_subset list.simps(15))
  with Cons assms(1) show ?thesis
    by (auto simp: dict_getitem_def)
qed

lemma spec_satisfied_marker:
  assumes "''status'' \<notin> fst ` set req"
  shows "spec_satisfied req [(''status'', PStr ''unauthenticated'')] = (req = [])"
proof (cases req)
  case Nil
  then show ?thesis by (simp add: spec_satisfied_def)
next
  case (Cons kv rest)
  with assms have "fst kv \<noteq> ''status''"
    by auto
  with Cons show ?thesis
    by (auto simp: spec_satisfied_def split: option.splits)
qed

lemma authz_required_unauthenticated:
  assumes "\<not> is_authenticated (session ctx) (now ctx)" and "''status'' \<notin> fst ` set req"
  shows "authz_required req f ctx =
     (if spec_satisfied req [(''status'', PStr ''unauthenticated'')] then f ctx
      else UnauthorizedError ''Permission not granted'' (response ctx))"
proof -
  have m: "my_attrs (session ctx) (now ctx) = Inr [(''status'', PStr ''unauthenticated'')]"
    using assms(1) by (simp add: my_attrs_def)
  have "''status'' \<notin> set (map fst req)"
    using assms(2) by simp
  then have l: "authz_loop (map fst req) req [(''status'', PStr ''unauthenticated'')] (session ctx)
      = Inr (req = [])"
    using authz_loop_marker [of "map fst req" req "session ctx"] by simp
  show ?thesis
    by (simp add: authz_required_def m l spec_satisfied_marker [OF assms(2)])
qed

lemma my_attrs_cases:
  "my_attrs sess t = Inr (if is_authenticated sess t then session_attributes sess
                          else [(''status'', PStr ''unauthenticated'')])"
proof (cases "is_authenticated sess t")
  case True
  then obtain a where "map_of sess ''attributes'' = Some (PDict a)"
    using is_authenticated_attributes by blast
  with True show ?thesis
    by (simp add: my_attrs_def dict_getitem_def session_attributes_def)
next
  case False
  then show ?thesis by (simp add: my_attrs_def)
qed

text \<open>
  Claim C1, as the code has it. The check reads the attributes the session exposes
  (\<open>my_attrs\<close>): the stored attributes when the session is authenticated, the marker
  \<open>{'status': 'unauthenticated'}\<close> otherwise. For every requirement map of a route and
  every session (authenticated, or with a requirement that does not name \<open>status\<close>),
  the check passes (the wrapped handler \<open>f\<close> is run and its result returned) if and
  only if every required claim is present in the exposed attributes and one of the
  session's values for it (a scalar counting as a one-element list) is among the
  requirement's acceptable values (a scalar counting as a one-element set); otherwise
  the check answers 401 with the body \<open>Permission not granted\<close>.
\<close>

theorem apply_require_attrs_exposed:
  assumes "authz rt = Some req"
    and "is_authenticated (session ctx) (now ctx) \<or> ''status'' \<notin> fst ` set req"
  shows "\<exists>mine. my_attrs (session ctx) (now ctx) = Inr mine \<and>
           (is_authenticated (session ctx) (now ctx) \<longrightarrow> mine = session_attributes (session ctx)) \<and>
           (spec_satisfied req mine \<longrightarrow> apply_require_attrs f rt ctx = f ctx) \<and>
           (\<not> spec_satisfied req mine \<longrightarrow>
              (\<exists>r. apply_require_attrs f rt ctx = Reply ReturnResponse r \<and>
                   status r = 401 \<and> body r = ''Permission not granted''))"
proof -
  let ?mine = "if is_authenticated (session ctx) (now ctx) then session_attributes (session ctx)
               else [(''status'', PStr ''unauthenticated'')]"
  have m: "my_attrs (session ctx) (now ctx) = Inr ?mine"
    by (rule my_attrs_cases)
  have r: "authz_required req f ctx =
     (if spec_satisfied req ?mine then f ctx
      else UnauthorizedError ''Permission not granted'' (response ctx))"
  proof (cases "is_authenticated (session ctx) (now ctx)")
    case True
    then show ?thesis
      using authz_required_authenticated [OF True, of req f] by simp
  next
    case False
    with assms(2) have "''status'' \<notin> fst ` set req"
      by simp
    then show ?thesis
      using authz_required_unauthenticated [OF False, of req f] False by simp
  qed
  have e: "req = [] \<Longrightarrow> spec_satisfied req ?mine"
    by (simp add: spec_satisfied_def)
  have a: "apply_require_attrs f rt ctx =
     (if spec_satisfied req ?mine then f ctx
      else UnauthorizedError ''Permission not granted'' (response ctx))"
    using assms(1) r e by (cases "req = []") (simp_all add: apply_require_attrs_def)
  show ?thesis
    using m a UnauthorizedError_reply [of "''Permission not granted''" "response ctx"]
    by (intro exI [of _ ?mine]) auto
qed

text \<open>
  The theorem at the example session while it is authenticated (second 900): a requirement
  with two acceptable values, one of them held, passes, and a requirement for a value the
  session does not hold is answered 401; and at the same session after its expiry
  (second 2000), where every requirement is answered 401.
\<close>

theorem apply_require_attrs_exposed_witness:
  "apply_require_attrs demo_handler \<lparr>rule = ''/admin'', authn = None,
        authz = Some [(''role'', PList [PStr ''admin'', PStr ''root''])]\<rparr> (demo_ctx stale_session 900)
     = Handler ''resource'' \<and>
   (\<exists>r. apply_require_attrs demo_handler \<lparr>rule = ''/admin'', authn = None,
        authz = Some [(''role'', PStr ''root'')]\<rparr> (demo_ctx stale_session 900)
     = Reply ReturnResponse r \<and> status r = 401 \<and> body r = ''Permission not granted'') \<and>
   (\<exists>r. apply_require_attrs demo_handler \<lparr>rule = ''/admin'', authn = Some (PBool False),
        authz = Some [(''role'', PStr ''admin'')]\<rparr> (demo_ctx stale_session 2000)
     = Reply ReturnResponse r \<and> status r = 401 \<and> body r = ''Permission not granted'')"
proof -
  let ?c = "demo_ctx stale_session 900"
  let ?d = "demo_ctx stale_session 2000"
  have a: "is_authenticated (session ?c) (now ?c)"
    by (simp add: is_authenticated_def is_authenticated_try_def dict_getitem_def py_ge_int_def
        demo_ctx_def stale_session_def)
  have n: "\<not> is_authenticated (session ?d) (now ?d)"
    by (simp add: is_authenticated_def is_authenticated_try_def dict_getitem_def py_ge_int_def
        demo_ctx_def stale_session_def)
  have s1: "spec_satisfied [(''role'', PList [PStr ''admin'', PStr ''root''])]
       (session_attributes (session ?c))"
    by (simp add: spec_satisfied_def session_attributes_def demo_ctx_def stale_session_def)
  have s2: "\<not> spec_satisfied [(''role'', PStr ''root'')] (session_attributes (session ?c))"
    by (simp add: spec_satisfied_def session_attributes_def demo_ctx_def stale_session_def)
  have s3: "\<not> spec_satisfied [(''role'', PStr ''admin'')] [(''status'', PStr ''unauthenticated'')]"
    by (simp add: spec_satisfied_def)
  have m: "my_attrs (session ?d) (now ?d) = Inr [(''status'', PStr ''unauthenticated'')]"
    using n by (simp add: my_attrs_def)
  have t1: "apply_require_attrs demo_handler \<lparr>rule = ''/admin'', authn = None,
        authz = Some [(''role'', PList [PStr ''admin'', PStr ''root''])]\<rparr> ?c = demo_handler ?c"
    using apply_require_attrs_exposed [of "\<lparr>rule = ''/admin'', authn = None,
        authz = Some [(''role'', PList [PStr ''admin'', PStr ''root''])]\<rparr>"
        "[(''role'', PList [PStr ''admin'', PStr ''root''])]" ?c demo_handler] a s1
    by auto
  have t2: "\<exists>r. apply_require_attrs demo_handler \<lparr>rule = ''/admin'', authn = None,
        authz = Some [(''role'', PStr ''root'')]\<rparr> ?c
     = Reply ReturnResponse r \<and> status r = 401 \<and> body r = ''Permission not granted''"
    using apply_require_attrs_exposed [of "\<lparr>rule = ''/admin'', authn = None,
        authz = Some [(''role'', PStr ''root'')]\<rparr>" "[(''role'', PStr ''root'')]" ?c demo_handler] a s2
    by auto
  have t3: "\<exists>r. apply_require_attrs demo_handler \<lparr>rule = ''/admin'', authn = Some (PBool False),
        authz = Some [(''role'', PStr ''admin'')]\<rparr> ?d
     = Reply ReturnResponse r \<and> status r = 401 \<and> body r = ''Permission not granted''"
    using apply_require_attrs_exposed [of "\<lparr>rule = ''/admin'', authn = Some (PBool False),
        authz = Some [(''role'', PStr ''admin'')]\<rparr>" "[(''role'', PStr ''admin'')]" ?d demo_handler] m s3
    by auto
  show ?thesis
    using t1 t2 t3 by (simp add: demo_handler_def)
qed

text \<open>
  Claim C1 as stated quantifies over every session attribute map. A session whose
  authentication expired at second 1000 still stores \<open>role = admin\<close>; at second 2000
  \<open>my_attrs\<close> is the marker \<open>{'status': 'unauthenticated'}\<close>, so on a route with
  \<open>authn=False\<close> and \<open>authz={'role': 'admin'}\<close> the check answers 401 although the
  stored attributes satisfy the requirement.
\<close>

theorem apply_require_attrs_stale_counterexample:
  "spec_satisfied [(''role'', PStr ''admin'')] (session_attributes (session (demo_ctx stale_session 2000))) \<and>
   apply_require_attrs demo_handler \<lparr>rule = ''/admin'', authn = Some (PBool False),
        authz = Some [(''role'', PStr ''admin'')]\<rparr> (demo_ctx stale_session 2000)
     = Reply ReturnResponse \<lparr>status = 401,
         headers = [(''Cache-Control'', ''no-cache''), (''Pragma'', ''no-cache''),
                    (''Expires'', ''Sun, 25 Jul 2021 15:42:14 GMT'')],
         body = ''Permission not granted''\<rparr>"
  by (simp add: spec_satisfied_def session_attributes_def demo_ctx_def stale_session_def
      apply_require_attrs_def authz_required_def my_attrs_def is_authenticated_def
      is_authenticated_try_def dict_getitem_def py_ge_int_def UnauthorizedError_def
      headers_update_def no_cache_headers_def set_header_def demo_response_def)

subsection \<open>Attribute extraction\<close>

lemma map_of_dict_setitem: "map_of (dict_setitem k v d) = (map_of d)(k \<mapsto> v)"
  by (simp add: dict_setitem_def update_conv')

lemma keys_dict_setitem: "fst ` set (dict_setitem k v d) = insert k (fst ` set d)"
  by (simp add: dict_setitem_def dom_update)

lemma collect_attrs_keys:
  "fst ` set (collect_attrs allow cs acc) =
     fst ` set acc \<union> {n \<in> attr_name ` set cs. n \<in> set allow}"
  by (induction cs arbitrary: acc) (auto simp: keys_dict_setitem)

lemma map_of_None_keys: "map_of d k = None \<longleftrightarrow> k \<notin> fst ` set d"
  by (simp add: map_of_eq_None_iff)

lemma ascii_lower_char_idem: "ascii_lower_char (ascii_lower_char c) = ascii_lower_char c"
proof (cases "65 \<le> (of_char c :: nat) \<and> (of_char c :: nat) \<le> 90")
  case True
  then have "(of_char c :: nat) + 32 < 256"
    by simp
  then have "of_char (char_of ((of_char c :: nat) + 32)) = (of_char c :: nat) + 32"
    by simp
  then show ?thesis using True
    by (simp add: ascii_lower_char_def)
next
  case False
  then show ?thesis by (auto simp: ascii_lower_char_def)
qed

lemma ascii_lower_idem: "ascii_lower (ascii_lower s) = ascii_lower s"
  by (simp add: ascii_lower_def ascii_lower_char_idem)

lemma changed_not_in_lowered:
  assumes "\<forall>s. lower (lower s) = lower s" and "lower n \<noteq> n"
  shows "n \<notin> set (map lower l)"
proof
  assume "n \<in> set (map lower l)"
  then obtain x where "n = lower x"
    by auto
  with assms(1) have "lower n = n"
    by simp
  with assms(2) show False by simp
qed

lemma collect_attrs_filter:
  assumes "\<forall>c \<in> set cs. attr_name c \<in> set allow \<longrightarrow> P c"
  shows "collect_attrs allow (filter P cs) acc = collect_attrs allow cs acc"
  using assms by (induction cs arbitrary: acc) auto

lemma build_attrs_list_filter:
  assumes "\<forall>c \<in> set (attributes r). attr_name c \<in> set (saml_attrs self) \<longrightarrow> P c"
  shows "build_attrs_list self t un (r\<lparr>attributes := filter P (attributes r)\<rparr>) =
         build_attrs_list self t un r"
  by (simp add: build_attrs_list_def collect_attrs_filter [OF assms])

lemma saml_attrs_init:
  "saml_attrs (SamlSP_init lower config acs_env key) =
     map lower (case cfg_assertions config of None \<Rightarrow> [] | Some l \<Rightarrow> l)"
  by (simp add: SamlSP_init_def)

lemma build_attrs_list_keys:
  assumes "build_attrs_list self t un r = (u, a)"
  shows "fst ` set a =
     {''username'', ''_saml''} \<union> {n \<in> attr_name ` set (attributes r). n \<in> set (saml_attrs self)}"
proof -
  let ?c = "collect_attrs (saml_attrs self) (attributes r) []"
  have k: "fst ` set ?c = {n \<in> attr_name ` set (attributes r). n \<in> set (saml_attrs self)}"
    by (simp add: collect_attrs_keys)
  obtain x y where a: "a = dict_setitem ''_saml'' x
      (if map_of ?c ''username'' = None then dict_setitem ''username'' y ?c else ?c)"
    using assms by (auto simp: build_attrs_list_def Let_def)
  show ?thesis
  proof (cases "map_of ?c ''username'' = None")
    case True
    then show ?thesis
      unfolding a by (simp add: keys_dict_setitem k insert_commute)
  next
    case False
    then have "''username'' \<in> fst ` set ?c"
      by (simp add: map_of_None_keys)
    then show ?thesis
      unfolding a using False by (auto simp: keys_dict_setitem k)
  qed
qed

text \<open>
  Claim C5. Extraction, called as the callback calls it (with the subject identifier as
  the username), returns as username the value collected for the configured identity
  claim \<open>attr_uid\<close> when that name is among the collected attributes, and the
  assertion's subject identifier otherwise; the returned map has a \<open>username\<close> entry;
  the expiry in its \<open>_saml\<close> metadata is the current time plus \<open>auth_duration\<close>, which
  is later than the time of extraction when the duration is positive.
\<close>

theorem build_attrs_list_username_expiry:
  assumes "build_attrs_list self t (PStr (name_id r)) r = (u, a)"
  shows "u = (case map_of (collect_attrs (saml_attrs self) (attributes r) []) (attr_uid self) of
                Some v \<Rightarrow> v
              | None \<Rightarrow> PStr (name_id r)) \<and>
         (\<exists>v. map_of a ''username'' = Some v) \<and>
         (\<exists>m. map_of a ''_saml'' = Some (PDict m) \<and>
              map_of m ''expires'' = Some (PInt (t + auth_duration self))) \<and>
         session_expires [(''attributes'', PDict a)] = Some (t + auth_duration self) \<and>
         (0 < auth_duration self \<longrightarrow> t < t + auth_duration self)"
  using assms
  by (auto simp: build_attrs_list_def Let_def map_of_dict_setitem session_expires_def
      split: option.splits)

text \<open>
  The theorem at the example assertion: with \<open>givenname\<close> as identity claim the username
  is \<open>Alice\<close> and the expiry 1000 + 3600; with an identity claim the assertion does not
  carry, the username is the subject identifier.
\<close>

theorem build_attrs_list_username_expiry_witness:
  "(\<exists>a. build_attrs_list demo_sp 1000 (PStr (name_id demo_assertion)) demo_assertion
          = (PStr ''Alice'', a) \<and>
        map_of a ''username'' = Some (PStr ''Alice'') \<and>
        session_expires [(''attributes'', PDict a)] = Some 4600) \<and>
   fst (build_attrs_list (demo_sp\<lparr>attr_uid := ''uid''\<rparr>) 1000 (PStr (name_id demo_assertion)) demo_assertion)
     = PStr ''subject-1''"
proof -
  obtain u a where b: "build_attrs_list demo_sp 1000 (PStr (name_id demo_assertion)) demo_assertion = (u, a)"
    by (cases "build_attrs_list demo_sp 1000 (PStr (name_id demo_assertion)) demo_assertion")
  obtain u' a' where b': "build_attrs_list (demo_sp\<lparr>attr_uid := ''uid''\<rparr>) 1000 (PStr (name_id demo_assertion)) demo_assertion = (u', a')"
    by (cases "build_attrs_list (demo_sp\<lparr>attr_uid := ''uid''\<rparr>) 1000 (PStr (name_id demo_assertion)) demo_assertion")
  have c: "collect_attrs (saml_attrs demo_sp) (attributes demo_assertion) [] = [(''givenname'', PStr ''Alice'')]"
    by code_simp
  have d: "auth_duration demo_sp = 3600" "attr_uid demo_sp = ''givenname''"
    by (simp_all add: demo_sp_def demo_config_def SamlSP_init_def)
  have n: "name_id demo_assertion = ''subject-1''"
    by (simp add: demo_assertion_def)
  have u: "map_of a ''username'' = Some (PStr ''Alice'')"
    using b by (auto simp: build_attrs_list_def Let_def c d map_of_dict_setitem)
  show ?thesis
    using build_attrs_list_username_expiry [OF b] build_attrs_list_username_expiry [OF b'] b b' c d n u
    by simp
qed


text \<open>
  Claim C6. With the allow-list lower-cased when the configuration is loaded, every key of
  the map extraction returns, other than \<open>username\<close> and the metadata entry \<open>_saml\<close>, is
  in the allow-list; and a claim of the assertion whose name is not in the allow-list is
  dropped: it is not collected, and its name is no key of the result (unless the name is
  \<open>username\<close> or \<open>_saml\<close>, entries that extraction itself writes).
\<close>

theorem build_attrs_list_keys_allowed:
  assumes "saml_attrs self = saml_attrs (SamlSP_init lower config acs_env key)"
    and "build_attrs_list self t un r = (u, a)"
  shows "(\<forall>k \<in> fst ` set a. k = ''username'' \<or> k = ''_saml'' \<or>
            k \<in> set (map lower (case cfg_assertions config of None \<Rightarrow> [] | Some l \<Rightarrow> l))) \<and>
         (\<forall>c \<in> set (attributes r).
            attr_name c \<notin> set (map lower (case cfg_assertions config of None \<Rightarrow> [] | Some l \<Rightarrow> l)) \<longrightarrow>
              attr_name c \<notin> fst ` set (collect_attrs (saml_attrs self) (attributes r) []) \<and>
              (attr_name c \<noteq> ''username'' \<and> attr_name c \<noteq> ''_saml'' \<longrightarrow> attr_name c \<notin> fst ` set a))"
proof -
  let ?allow = "map lower (case cfg_assertions config of None \<Rightarrow> [] | Some l \<Rightarrow> l)"
  have l: "saml_attrs self = ?allow"
    using assms(1) by (simp add: saml_attrs_init)
  have k: "fst ` set a = {''username'', ''_saml''} \<union>
      {n \<in> attr_name ` set (attributes r). n \<in> set ?allow}"
    using build_attrs_list_keys [OF assms(2)] by (simp only: l)
  have c: "fst ` set (collect_attrs (saml_attrs self) (attributes r) []) =
      {n \<in> attr_name ` set (attributes r). n \<in> set ?allow}"
    by (simp only: collect_attrs_keys l) simp
  show ?thesis
    by (simp only: k c) blast
qed

text \<open>
  The theorem at the example: the keys are among \<open>username\<close>, \<open>_saml\<close> and the two
  allow-listed names, and the claim \<open>mail\<close> is dropped.
\<close>

theorem build_attrs_list_keys_allowed_witness:
  "fst ` set (snd (build_attrs_list demo_sp 1000 (PStr ''subject-1'') demo_assertion))
     \<subseteq> {''username'', ''_saml'', ''givenname'', ''groups''} \<and>
   ''mail'' \<notin> fst ` set (snd (build_attrs_list demo_sp 1000 (PStr ''subject-1'') demo_assertion))"
proof -
  obtain u a where b: "build_attrs_list demo_sp 1000 (PStr ''subject-1'') demo_assertion = (u, a)"
    by (cases "build_attrs_list demo_sp 1000 (PStr ''subject-1'') demo_assertion")
  have s: "saml_attrs demo_sp = saml_attrs (SamlSP_init ascii_lower demo_config None demo_fernet)"
    by (simp add: demo_sp_def)
  have l: "map ascii_lower (case cfg_assertions demo_config of None \<Rightarrow> [] | Some l \<Rightarrow> l)
      = [''givenname'', ''groups'']"
    by code_simp
  have m: "\<lparr>attr_name = ''mail'', attr_values = [''alice@example.org'']\<rparr> \<in> set (attributes demo_assertion)"
    by (simp add: demo_assertion_def)
  show ?thesis
    using build_attrs_list_keys_allowed [OF s b] m unfolding l b
    by auto
qed

lemma build_attrs_list_fixed_name_kept:
  assumes "lower n = n" and "cfg_assertions config = Some l" and "n \<in> set l"
    and "c \<in> set (attributes r)" and "attr_name c = n"
  shows "n \<in> fst ` set (collect_attrs (saml_attrs (SamlSP_init lower config acs_env key))
                             (attributes r) [])"
proof -
  have "n \<in> set (map lower l)"
    using assms(1,3) by force
  then have "n \<in> set (saml_attrs (SamlSP_init lower config acs_env key))"
    by (simp add: saml_attrs_init assms(2))
  then show ?thesis
    using assms(4,5) by (auto simp: collect_attrs_keys)
qed

text \<open>
  Claim C10, as the code has it. The allow-list is lower-cased at load and compared as it
  is with the claim names: a claim of the assertion is collected exactly when its name,
  as written, is in the lower-cased allow-list. \<open>str.lower\<close> applied twice gives what it
  gives applied once, so a claim whose name lower-casing changes (a name with a letter
  that has a lower-case form, such as \<open>A\<close> to \<open>Z\<close>) is dropped, also when its
  lower-cased name is in the allow-list: it is not collected, its name is no key of the
  result (unless the name is \<open>username\<close> or \<open>_saml\<close>), and extraction returns what it
  returns for the assertion without these claims.
\<close>

theorem build_attrs_list_case_sensitive:
  assumes "saml_attrs self = saml_attrs (SamlSP_init lower config acs_env key)"
    and "\<forall>s. lower (lower s) = lower s"
  shows "(\<forall>c \<in> set (attributes r).
            (attr_name c \<in> fst ` set (collect_attrs (saml_attrs self) (attributes r) [])) =
            (attr_name c \<in> set (map lower (case cfg_assertions config of None \<Rightarrow> [] | Some l \<Rightarrow> l)))) \<and>
         (\<forall>c \<in> set (attributes r). lower (attr_name c) \<noteq> attr_name c \<longrightarrow>
            attr_name c \<notin> fst ` set (collect_attrs (saml_attrs self) (attributes r) []) \<and>
            (attr_name c \<noteq> ''username'' \<and> attr_name c \<noteq> ''_saml'' \<longrightarrow>
               attr_name c \<notin> fst ` set (snd (build_attrs_list self t un r)))) \<and>
         build_attrs_list self t un r =
           build_attrs_list self t un
             (r\<lparr>attributes := filter (\<lambda>c. lower (attr_name c) = attr_name c) (attributes r)\<rparr>)"
proof -
  let ?allow = "map lower (case cfg_assertions config of None \<Rightarrow> [] | Some l \<Rightarrow> l)"
  have l: "saml_attrs self = ?allow"
    using assms(1) by (simp add: saml_attrs_init)
  have n: "lower m \<noteq> m \<Longrightarrow> m \<notin> set (saml_attrs self)" for m
    unfolding l by (rule changed_not_in_lowered [OF assms(2)])
  have c: "fst ` set (collect_attrs (saml_attrs self) (attributes r) []) =
      {m \<in> attr_name ` set (attributes r). m \<in> set (saml_attrs self)}"
    by (simp add: collect_attrs_keys)
  obtain u a where b: "build_attrs_list self t un r = (u, a)"
    by (cases "build_attrs_list self t un r")
  have k: "fst ` set a = {''username'', ''_saml''} \<union>
      {m \<in> attr_name ` set (attributes r). m \<in> set (saml_attrs self)}"
    by (rule build_attrs_list_keys [OF b])
  have one: "\<forall>c \<in> set (attributes r).
      (attr_name c \<in> fst ` set (collect_attrs (saml_attrs self) (attributes r) [])) =
      (attr_name c \<in> set ?allow)"
    unfolding c using l by auto
  have two: "\<forall>c \<in> set (attributes r). lower (attr_name c) \<noteq> attr_name c \<longrightarrow>
      attr_name c \<notin> fst ` set (collect_attrs (saml_attrs self) (attributes r) []) \<and>
      (attr_name c \<noteq> ''username'' \<and> attr_name c \<noteq> ''_saml'' \<longrightarrow>
         attr_name c \<notin> fst ` set (snd (build_attrs_list self t un r)))"
    unfolding c b using n k by auto
  have "\<forall>c \<in> set (attributes r). attr_name c \<in> set (saml_attrs self) \<longrightarrow>
      lower (attr_name c) = attr_name c"
    using n by blast
  then have three: "build_attrs_list self t un
      (r\<lparr>attributes := filter (\<lambda>c. lower (attr_name c) = attr_name c) (attributes r)\<rparr>) =
      build_attrs_list self t un r"
    by (rule build_attrs_list_filter)
  show ?thesis
    using one two three by simp
qed

text \<open>
  The theorem at the example: \<open>groups\<close> is in the allow-list, the assertion's claim is
  named \<open>Groups\<close>, and it is dropped: extraction returns what it returns for the
  assertion with the claims \<open>givenname\<close> and \<open>mail\<close> only, and the result has no entry
  \<open>Groups\<close> and no entry \<open>groups\<close>.
\<close>

theorem build_attrs_list_case_sensitive_witness:
  "ascii_lower ''Groups'' \<in> set (saml_attrs demo_sp) \<and>
   ''Groups'' \<notin> fst ` set (collect_attrs (saml_attrs demo_sp) (attributes demo_assertion) []) \<and>
   build_attrs_list demo_sp 1000 (PStr ''subject-1'') demo_assertion =
     build_attrs_list demo_sp 1000 (PStr ''subject-1'')
       (demo_assertion\<lparr>attributes := [\<lparr>attr_name = ''givenname'', attr_values = [''Alice'']\<rparr>,
                                      \<lparr>attr_name = ''mail'', attr_values = [''alice@example.org'']\<rparr>]\<rparr>) \<and>
   map_of (snd (build_attrs_list demo_sp 1000 (PStr ''subject-1'') demo_assertion)) ''Groups'' = None \<and>
   map_of (snd (build_attrs_list demo_sp 1000 (PStr ''subject-1'') demo_assertion)) ''groups'' = None"
proof -
  have s: "saml_attrs demo_sp = saml_attrs (SamlSP_init ascii_lower demo_config None demo_fernet)"
    by (simp add: demo_sp_def)
  have i: "\<forall>s. ascii_lower (ascii_lower s) = ascii_lower s"
    by (simp add: ascii_lower_idem)
  have m: "\<lparr>attr_name = ''Groups'', attr_values = [''staff'', ''admin'']\<rparr> \<in> set (attributes demo_assertion)"
    by (simp add: demo_assertion_def)
  have g: "ascii_lower ''Groups'' = ''groups''"
    by code_simp
  have f: "filter (\<lambda>c. ascii_lower (attr_name c) = attr_name c) (attributes demo_assertion) =
      [\<lparr>attr_name = ''givenname'', attr_values = [''Alice'']\<rparr>,
       \<lparr>attr_name = ''mail'', attr_values = [''alice@example.org'']\<rparr>]"
    by code_simp
  have l: "ascii_lower ''Groups'' \<in> set (saml_attrs demo_sp)"
    by code_simp
  have e: "map_of (snd (build_attrs_list demo_sp 1000 (PStr ''subject-1'') demo_assertion)) ''Groups'' = None"
    "map_of (snd (build_attrs_list demo_sp 1000 (PStr ''subject-1'') demo_assertion)) ''groups'' = None"
    by code_simp+
  have n: "ascii_lower (attr_name \<lparr>attr_name = ''Groups'', attr_values = [''staff'', ''admin'']\<rparr>)
      \<noteq> attr_name \<lparr>attr_name = ''Groups'', attr_values = [''staff'', ''admin'']\<rparr>"
    by (simp add: g)
  note T = build_attrs_list_case_sensitive [OF s i, of demo_assertion 1000 "PStr ''subject-1''"]
  from T have A: "\<forall>c \<in> set (attributes demo_assertion).
      ascii_lower (attr_name c) \<noteq> attr_name c \<longrightarrow>
      attr_name c \<notin> fst ` set (collect_attrs (saml_attrs demo_sp) (attributes demo_assertion) [])"
    by blast
  have two:
    "''Groups'' \<notin> fst ` set (collect_attrs (saml_attrs demo_sp) (attributes demo_assertion) [])"
    using bspec [OF A m] n by simp
  from T have three: "build_attrs_list demo_sp 1000 (PStr ''subject-1'') demo_assertion =
      build_attrs_list demo_sp 1000 (PStr ''subject-1'')
        (demo_assertion\<lparr>attributes :=
           filter (\<lambda>c. ascii_lower (attr_name c) = attr_name c) (attributes demo_assertion)\<rparr>)"
    by blast
  show ?thesis
    using l two three e unfolding f by simp
qed

text \<open>
  Claim C10 as stated covers every name with an upper-case letter. U+03D2 is an upper-case
  letter that lower-casing leaves as it is: when the configuration asks for the claim of
  that name, the lower-cased allow-list holds the name unchanged, and the claim of the
  assertion is collected with its value.
\<close>

theorem build_attrs_list_upsilon_counterexample:
  "ascii_lower upsilon_hook = upsilon_hook \<and>
   map_of (snd (build_attrs_list (SamlSP_init ascii_lower upsilon_config None demo_fernet) 1000
                  (PStr ''subject-1'') upsilon_assertion)) upsilon_hook = Some (PStr ''x'')"
  by code_simp

subsection \<open>Request identifiers\<close>

lemma find_from_absent: "c \<notin> set s \<Longrightarrow> find_from i s c = -1"
  by (induction s arbitrary: i) auto

lemma find_from_present: "c \<notin> set b \<Longrightarrow> find_from i (b @ c # rest) c = int (i + length b)"
  by (induction b arbitrary: i) auto

lemma strip_padded:
  assumes "CHR ''='' \<notin> set b" and "0 < p"
  shows "py_slice_to (b @ replicate p (CHR ''='')) (py_find (b @ replicate p (CHR ''='')) (CHR ''='')) = b"
proof -
  from assms(2) obtain q where q: "p = Suc q"
    by (cases p) auto
  have "py_find (b @ replicate p (CHR ''='')) (CHR ''='') = int (length b)"
    using find_from_present [OF assms(1), of 0 "replicate q (CHR ''='')"]
    by (simp add: q py_find_def)
  then show ?thesis
    by (simp add: py_slice_to_def)
qed

lemma strip_unpadded:
  assumes "CHR ''='' \<notin> set b"
  shows "py_slice_to b (py_find b (CHR ''='')) = butlast b"
  using find_from_absent [OF assms, of 0]
  by (simp add: py_find_def py_slice_to_def butlast_conv_take)

lemma pad_base64_restores:
  assumes "(length b + p) mod 4 = 0" and "0 < p" and "p < 4"
  shows "pad_base64 b = b @ replicate p (CHR ''='')"
proof -
  have "(length b mod 4 + p) mod 4 = 0"
    using assms(1) by (simp add: mod_add_left_eq)
  then have "4 dvd (length b mod 4 + p)"
    by (simp add: mod_eq_0_iff_dvd)
  then obtain k where k: "length b mod 4 + p = 4 * k"
    by (rule dvdE)
  have "length b mod 4 < 4" by simp
  with k assms(2,3) have "k = 1"
    by linarith
  with k have "4 - length b mod 4 = p"
    by linarith
  then show ?thesis
    by (simp add: pad_base64_def)
qed

lemma pad_base64_butlast:
  assumes "length b mod 4 = 0" and "b \<noteq> []"
  shows "pad_base64 (butlast b) = butlast b @ [CHR ''='']"
proof -
  from assms(1) have "4 dvd length b"
    by (simp add: mod_eq_0_iff_dvd)
  then obtain k where k: "length b = 4 * k"
    by (rule dvdE)
  with assms(2) obtain j where j: "k = Suc j"
    by (cases k) auto
  have "length b - 1 = 3 + 4 * j"
    by (simp add: k j)
  then have "(length b - 1) mod 4 = 3"
    by simp
  then show ?thesis
    by (simp add: pad_base64_def)
qed

lemma b64_length_mod4: "b64_length n mod 4 = 0"
  by (simp add: b64_length_def)

lemma b64_padding_less: "b64_padding n < 3"
  by (simp add: b64_padding_def)

lemma b64_length_fernet_pos: "4 \<le> b64_length (fernet_token_bytes n)"
  by (simp add: b64_length_def fernet_token_bytes_def)

lemma py_startswith_Id: "py_startswith (''Id'' @ s) ''Id''"
  by (simp add: py_startswith_def)

text \<open>
  Minting strips the padding and validation puts it back: when the Fernet token of the id
  ends in one or two \<open>=\<close>, the string handed to \<open>decrypt\<close> is the token itself.
\<close>

lemma noidp_roundtrip_padded:
  assumes fmt: "fernet_format (reqid_f self)"
    and pad: "b64_padding (fernet_token_bytes (length (reqid_id self))) \<noteq> 0"
    and ne: "reqid_id self \<noteq> []"
    and dec: "fernet_decrypt (reqid_f self) (fernet_encrypt (reqid_f self) t iv (reqid_id self))
                (reqid_ttl self) t' = Inr (reqid_id self)"
  shows "noidp_validate_requestID self env t' (Some (noidp_new_requestID self t iv)) = Inr True"
proof -
  let ?p = "b64_padding (fernet_token_bytes (length (reqid_id self)))"
  let ?tok = "fernet_encrypt (reqid_f self) t iv (reqid_id self)"
  from fmt obtain b where b: "?tok = b @ replicate ?p (CHR ''='')" "CHR ''='' \<notin> set b"
      "length ?tok = b64_length (fernet_token_bytes (length (reqid_id self)))"
    unfolding fernet_format_def by blast
  have new: "noidp_new_requestID self t iv = ''Id'' @ b"
    using strip_padded [OF b(2), of ?p] pad
    by (simp add: noidp_new_requestID_def Let_def b(1))
  have "(length b + ?p) mod 4 = 0"
    using b(3) b64_length_mod4 [of "fernet_token_bytes (length (reqid_id self))"]
    by (simp add: b(1))
  then have "pad_base64 b = ?tok"
    using pad_base64_restores [of b ?p] pad b64_padding_less [of "fernet_token_bytes (length (reqid_id self))"]
    by (simp add: b(1))
  then have "noidp_validate_try self t' (Some (''Id'' @ b)) = Inr True"
    using dec ne by (simp add: noidp_validate_try_def py_startswith_def)
  then show ?thesis
    by (simp add: noidp_validate_requestID_def new)
qed

lemma b64_padding_default: "b64_padding (fernet_token_bytes (length ''ReqID'')) = 2"
  by (simp add: b64_padding_def fernet_token_bytes_def)

lemma fernet_format_demo: "fernet_format demo_fernet"
proof -
  have "\<exists>b. demo_encrypt t iv m = b @ replicate (b64_padding (fernet_token_bytes (length m))) (CHR ''='') \<and>
        CHR ''='' \<notin> set b \<and>
        length (demo_encrypt t iv m) = b64_length (fernet_token_bytes (length m))" for t iv m
  proof -
    have "b64_padding (fernet_token_bytes (length m)) \<le> b64_length (fernet_token_bytes (length m))"
      using b64_padding_less [of "fernet_token_bytes (length m)"]
        b64_length_fernet_pos [of "length m"] by linarith
    then show ?thesis
      by (intro exI [of _ "replicate (b64_length (fernet_token_bytes (length m))
            - b64_padding (fernet_token_bytes (length m))) (CHR ''A'')"])
        (simp add: demo_encrypt_def)
  qed
  then show ?thesis
    by (simp add: fernet_format_def demo_fernet_def)
qed

lemma fernet_authentic_demo: "fernet_authentic demo_fernet"
  unfolding fernet_authentic_def
proof (intro allI impI)
  fix s life t m
  assume "fernet_decrypt demo_fernet s life t = Inr m"
  then have "s = demo_encrypt 0 [] m"
    by (auto simp: demo_fernet_def demo_decrypt_def split: if_splits)
  then show "\<exists>t0 iv. s = fernet_encrypt demo_fernet t0 iv m"
    by (auto simp: demo_fernet_def)
qed

lemma noidp_roundtrip_default_id:
  assumes "\<not> reqid_idpok self"
    and "fernet_format (reqid_f self)"
    and "reqid_id self = ''ReqID''"
    and "fernet_decrypt (reqid_f self) (fernet_encrypt (reqid_f self) t iv (reqid_id self))
                (reqid_ttl self) t' = Inr (reqid_id self)"
  shows "validate_requestID self env t' (Some (new_requestID self t iv rnd)) = Inr True"
proof -
  have "b64_padding (fernet_token_bytes (length (reqid_id self))) \<noteq> 0"
    using b64_padding_default by (simp add: assms(3))
  moreover have "reqid_id self \<noteq> []"
    by (simp add: assms(3))
  ultimately show ?thesis
    using noidp_roundtrip_padded [OF assms(2) _ _ assms(4)] assms(1)
    by (simp add: validate_requestID_def new_requestID_def)
qed

text \<open>
  Claim C3. In strict mode (\<open>idp_ok\<close> false in the configuration), a token minted by
  \<open>new_requestID\<close> validates: whenever the key decrypts, at the time of validation and
  with the configured time to live, the Fernet token it made at minting (the token is
  within its TTL window, under the same key), \<open>validate_requestID\<close> returns true on the
  minted request id. The prefix and the stripped padding of minting are undone exactly by
  validation: the Fernet token of the id \<open>ReqID\<close> is 73 bytes, 100 characters ending in
  two \<open>=\<close>.
\<close>

theorem strict_roundtrip:
  assumes "cfg_idp_ok config = Some False"
    and "fernet_format key"
    and "fernet_decrypt key (fernet_encrypt key t iv ''ReqID'')
           (reqid_ttl (reqid (SamlSP_init lower config acs_env key))) t' = Inr ''ReqID''"
  shows "validate_requestID (reqid (SamlSP_init lower config acs_env key)) env t'
           (Some (new_requestID (reqid (SamlSP_init lower config acs_env key)) t iv rnd)) = Inr True"
proof -
  let ?r = "reqid (SamlSP_init lower config acs_env key)"
  have r: "\<not> reqid_idpok ?r" "reqid_f ?r = key" "reqid_id ?r = ''ReqID''"
    using assms(1) by (simp_all add: SamlSP_init_def ReqID_init_def)
  show ?thesis
    using noidp_roundtrip_default_id [of ?r t iv t' env rnd] assms(2,3) r by simp
qed

text \<open>
  The theorem with the stand-in key: a token minted at second 0 validates at second 30.
\<close>

theorem strict_roundtrip_witness:
  "validate_requestID (reqid demo_sp) None 30
     (Some (new_requestID (reqid demo_sp) 0 ''0123456789abcdef'' [])) = Inr True"
proof -
  have c: "cfg_idp_ok demo_config = Some False"
    by (simp add: demo_config_def)
  have d: "fernet_decrypt demo_fernet (fernet_encrypt demo_fernet 0 ''0123456789abcdef'' ''ReqID'')
           (reqid_ttl (reqid (SamlSP_init ascii_lower demo_config None demo_fernet))) 30 = Inr ''ReqID''"
    by (simp add: demo_fernet_def demo_decrypt_def demo_encrypt_def)
  show ?thesis
    using strict_roundtrip [OF c fernet_format_demo d, of None "[]"]
    by (simp add: demo_sp_def)
qed

text \<open>
  Remarks on ids other than the default, which \<open>SamlSP\<close> never passes: with an empty id
  the walrus test fails on the empty plaintext, and with an id of 32 to 47 characters the
  Fernet token is 105 bytes, its base64 form has no padding, \<open>find\<close> returns -1 and the
  slice drops the last character of the token.
\<close>

lemma noidp_validate_empty_id:
  assumes "reqid_id self = []"
  shows "noidp_validate_requestID self env t r \<noteq> Inr True"
  using assms
  by (auto simp: noidp_validate_requestID_def noidp_validate_try_def
      split: sum.splits option.splits if_splits)

lemma b64_padding_32_47:
  assumes "32 \<le> n" and "n < 48"
  shows "b64_padding (fernet_token_bytes n) = 0"
proof -
  have "n div 16 = 2"
    using assms by (intro div_nat_eqI) simp_all
  then show ?thesis
    by (simp add: b64_padding_def fernet_token_bytes_def)
qed

lemma noidp_unpadded_not_True:
  assumes fmt: "fernet_format (reqid_f self)"
    and auth: "fernet_authentic (reqid_f self)"
    and len: "32 \<le> length (reqid_id self)" "length (reqid_id self) < 48"
  shows "noidp_validate_try self t' (Some (noidp_new_requestID self t iv)) \<noteq> Inr True"
proof
  assume tr: "noidp_validate_try self t' (Some (noidp_new_requestID self t iv)) = Inr True"
  let ?tok = "fernet_encrypt (reqid_f self) t iv (reqid_id self)"
  have p0: "b64_padding (fernet_token_bytes (length (reqid_id self))) = 0"
    by (rule b64_padding_32_47 [OF len])
  from fmt have f: "\<And>t0 iv0. CHR ''='' \<notin> set (fernet_encrypt (reqid_f self) t0 iv0 (reqid_id self))"
    unfolding fernet_format_def using p0 by (metis append_Nil2 replicate_0)
  from fmt have l: "length ?tok = b64_length (fernet_token_bytes (length (reqid_id self)))"
    unfolding fernet_format_def by blast
  have ne: "?tok \<noteq> []"
    using l b64_length_fernet_pos [of "length (reqid_id self)"] by auto
  have m4: "length ?tok mod 4 = 0"
    using l b64_length_mod4 by simp
  have new: "noidp_new_requestID self t iv = ''Id'' @ butlast ?tok"
    using strip_unpadded [OF f] by (simp add: noidp_new_requestID_def Let_def)
  have padded: "pad_base64 (butlast ?tok) = butlast ?tok @ [CHR ''='']"
    by (rule pad_base64_butlast [OF m4 ne])
  from tr have "fernet_decrypt (reqid_f self) (butlast ?tok @ [CHR ''='']) (reqid_ttl self) t'
      = Inr (reqid_id self)"
    unfolding new noidp_validate_try_def
    by (simp add: py_startswith_def padded split: sum.splits)
  with auth obtain t0 iv0 where "butlast ?tok @ [CHR ''=''] = fernet_encrypt (reqid_f self) t0 iv0 (reqid_id self)"
    unfolding fernet_authentic_def by blast
  then have "CHR ''='' \<in> set (fernet_encrypt (reqid_f self) t0 iv0 (reqid_id self))"
    by (metis in_set_conv_decomp)
  with f show False by blast
qed

lemma noidp_roundtrip_fails_unpadded:
  assumes "\<not> reqid_idpok self"
    and "fernet_format (reqid_f self)"
    and "fernet_authentic (reqid_f self)"
    and "32 \<le> length (reqid_id self)" and "length (reqid_id self) < 48"
  shows "validate_requestID self env t' (Some (new_requestID self t iv rnd)) \<noteq> Inr True \<and>
         (\<not> py_truthy (DEBUG env) \<longrightarrow>
            validate_requestID self env t' (Some (new_requestID self t iv rnd)) = Inr False)"
proof -
  have n: "noidp_validate_try self t' (Some (noidp_new_requestID self t iv)) \<noteq> Inr True"
    by (rule noidp_unpadded_not_True [OF assms(2-5)])
  show ?thesis
    using assms(1) n
    by (auto simp: validate_requestID_def new_requestID_def noidp_validate_requestID_def
        split: sum.splits)
qed

lemma noidp_roundtrip_fails_unpadded_example:
  "validate_requestID (ReqID_init False long_id 60 demo_fernet) None 0
     (Some (new_requestID (ReqID_init False long_id 60 demo_fernet) 0 [] [])) = Inr False"
proof -
  have a: "\<not> reqid_idpok (ReqID_init False long_id 60 demo_fernet)"
    "fernet_format (reqid_f (ReqID_init False long_id 60 demo_fernet))"
    "fernet_authentic (reqid_f (ReqID_init False long_id 60 demo_fernet))"
    "32 \<le> length (reqid_id (ReqID_init False long_id 60 demo_fernet))"
    "length (reqid_id (ReqID_init False long_id 60 demo_fernet)) < 48"
    by (simp_all add: ReqID_init_def fernet_format_demo fernet_authentic_demo long_id_def)
  show ?thesis
    using noidp_roundtrip_fails_unpadded [OF a, of None 0 0 "[]" "[]"]
    by (simp add: DEBUG_def)
qed

text \<open>
  Claim C4, as the code has it. In strict mode, when the environment variable \<open>DEBUG\<close> is
  unset or empty, \<open>validate_requestID\<close> never raises, and it returns false for every
  malformed token: a correlation id that is \<open>None\<close>, a wrong prefix, a payload for which
  \<open>decrypt\<close> raises (undecodable or corrupted, failed authentication, elapsed time to
  live), or a plaintext that is not the id.
\<close>

theorem strict_validate_no_raise:
  assumes "\<not> reqid_idpok self" and "\<not> py_truthy (DEBUG env)"
  shows "(\<exists>b. validate_requestID self env t rid = Inr b) \<and>
         (rid = None \<longrightarrow> validate_requestID self env t rid = Inr False) \<and>
         (\<forall>r. rid = Some r \<and> \<not> py_startswith r ''Id'' \<longrightarrow>
              validate_requestID self env t rid = Inr False) \<and>
         (\<forall>r e. rid = Some r \<and>
                fernet_decrypt (reqid_f self) (pad_base64 (drop 2 r)) (reqid_ttl self) t = Inl e \<longrightarrow>
              validate_requestID self env t rid = Inr False) \<and>
         (\<forall>r m. rid = Some r \<and>
                fernet_decrypt (reqid_f self) (pad_base64 (drop 2 r)) (reqid_ttl self) t = Inr m \<and>
                m \<noteq> reqid_id self \<longrightarrow>
              validate_requestID self env t rid = Inr False)"
  using assms
  by (auto simp: validate_requestID_def noidp_validate_requestID_def noidp_validate_try_def
      split: sum.splits option.splits)

text \<open>
  The theorem at a token with a wrong prefix, at \<open>None\<close> (with \<open>DEBUG\<close> set to the empty
  string), and at a token with the right prefix and a corrupted payload.
\<close>

theorem strict_validate_no_raise_witness:
  "validate_requestID (ReqID_init False ''ReqID'' 60 demo_fernet) None 0 (Some ''xx'') = Inr False \<and>
   validate_requestID (ReqID_init False ''ReqID'' 60 demo_fernet) (Some []) 0 None = Inr False \<and>
   validate_requestID (ReqID_init False ''ReqID'' 60 demo_fernet) None 0 (Some ''Idgarbage'') = Inr False"
proof -
  have a: "\<not> reqid_idpok (ReqID_init False ''ReqID'' 60 demo_fernet)"
    by (simp add: ReqID_init_def)
  have d: "\<not> py_truthy (DEBUG None)" "\<not> py_truthy (DEBUG (Some []))"
    by (simp_all add: DEBUG_def)
  have p: "\<not> py_startswith ''xx'' ''Id''"
    by (simp add: py_startswith_def)
  have g: "fernet_decrypt (reqid_f (ReqID_init False ''ReqID'' 60 demo_fernet))
      (pad_base64 (drop 2 ''Idgarbage'')) (reqid_ttl (ReqID_init False ''ReqID'' 60 demo_fernet)) 0
      = Inl InvalidToken"
    by code_simp
  show ?thesis
    using strict_validate_no_raise [OF a d(1), of 0 "Some ''xx''"]
      strict_validate_no_raise [OF a d(2), of 0 None]
      strict_validate_no_raise [OF a d(1), of 0 "Some ''Idgarbage''"] p g
    by simp
qed

text \<open>
  Claim C4 as stated says that validation never raises. With \<open>DEBUG=1\<close> in the
  environment the handler re-raises: a token with a wrong prefix raises
  \<open>Exception('Invalid Request ID')\<close>.
\<close>

theorem strict_validate_debug_counterexample:
  "validate_requestID (ReqID_init False ''ReqID'' 60 demo_fernet) (Some ''1'') 0 (Some ''xx'')
     = Inl (PyException ''Invalid Request ID'')"
  by (simp add: validate_requestID_def noidp_validate_requestID_def noidp_validate_try_def
      ReqID_init_def py_startswith_def DEBUG_def)

subsection \<open>The assertion consumer service\<close>

lemma response_error_status: "status (response_error st r) = st"
proof -
  have "status (fold (\<lambda>h. set_header (fst h) (snd h)) hs r) = status r" for hs r
    by (induction hs arbitrary: r) (simp_all add: set_header_def)
  then show ?thesis
    by (simp add: response_error_def headers_update_def)
qed

text \<open>
  Claim C7. When the session is already authenticated, the callback returns the body
  \<open>ACS invoked for authenticated user\<close> with status 400 (\<open>AppError\<close>), leaves the
  session as it is, and logs nothing: none of the later steps has run (each of them logs
  a line), and the result does not depend on the form, the validator, the request-id
  checker or the hooks.
\<close>

theorem finish_saml_login_work_authenticated:
  assumes "is_authenticated (session ctx) (now ctx)"
  shows "finish_saml_login_work self lib env form ctx =
           \<lparr>returned = Inr ''ACS invoked for authenticated user'',
            session_after = session ctx,
            response_after = response_error 400 (response ctx),
            logged = []\<rparr> \<and>
         status (response_after (finish_saml_login_work self lib env form ctx)) = 400 \<and>
         (\<forall>self' lib' env' form'.
            finish_saml_login_work self' lib' env' form' ctx =
            finish_saml_login_work self lib env form ctx)"
  using assms
  by (simp add: finish_saml_login_work_def acs_error_def response_error_status)

text \<open>
  The theorem at the example session while it is authenticated.
\<close>

theorem finish_saml_login_work_authenticated_witness:
  "returned (finish_saml_login_work demo_sp demo_library None demo_form (demo_ctx stale_session 900))
     = Inr ''ACS invoked for authenticated user'' \<and>
   session_after (finish_saml_login_work demo_sp demo_library None demo_form (demo_ctx stale_session 900))
     = stale_session \<and>
   status (response_after (finish_saml_login_work demo_sp demo_library None demo_form (demo_ctx stale_session 900)))
     = 400 \<and>
   logged (finish_saml_login_work demo_sp demo_library None demo_form (demo_ctx stale_session 900)) = []"
proof -
  have a: "is_authenticated (session (demo_ctx stale_session 900)) (now (demo_ctx stale_session 900))"
    by (simp add: is_authenticated_def is_authenticated_try_def dict_getitem_def py_ge_int_def
        demo_ctx_def stale_session_def)
  show ?thesis
    using finish_saml_login_work_authenticated [OF a, of demo_sp demo_library None demo_form]
    by (simp add: demo_ctx_def response_error_status)
qed

lemma run_hooks_fail_at:
  "i < length hs \<Longrightarrow> run_hooks (take i hs) x = Inr y \<Longrightarrow> (hs ! i) y = Inl e \<Longrightarrow>
     run_hooks hs x = Inl e"
proof (induction hs arbitrary: i x)
  case Nil
  then show ?case by simp
next
  case (Cons h hs)
  show ?case
  proof (cases i)
    case 0
    with Cons.prems show ?thesis by simp
  next
    case (Suc j)
    with Cons.prems obtain z where z: "h x = Inr z" "run_hooks (take j hs) z = Inr y"
      by (auto split: sum.splits)
    with Cons.IH [of j z] Cons.prems Suc show ?thesis by simp
  qed
qed

text \<open>
  Claim C8. When the callback reaches extraction (the session is not authenticated, the
  response validates, the correlation id is accepted, the issuer matches) and a login
  hook, on the value the hooks before it produced, raises, the session is cleared (no
  \<open>username\<close> and no \<open>attributes\<close> are left) and the callback answers 403 with the
  message of the failure.
\<close>

theorem finish_saml_login_work_hook_failure:
  assumes "\<not> is_authenticated (session ctx) (now ctx)"
    and "form_SAMLResponse form = Some raw"
    and "validate_response lib raw (saml_certificate self) (saml_audience self) = Inr resp"
    and "validate_requestID (reqid self) env (now ctx) (in_response_to resp) = Inr True"
    and "issuer resp = saml_issuer self"
    and "i < length (login_hooks self)"
    and "run_hooks (take i (login_hooks self))
           (fst (build_attrs_list self (now ctx) (PStr (name_id resp)) resp),
            PDict (snd (build_attrs_list self (now ctx) (PStr (name_id resp)) resp))) = Inr ua"
    and "(login_hooks self ! i) ua = Inl e"
  shows "session_after (finish_saml_login_work self lib env form ctx) = [] \<and>
         map_of (session_after (finish_saml_login_work self lib env form ctx)) ''username'' = None \<and>
         map_of (session_after (finish_saml_login_work self lib env form ctx)) ''attributes'' = None \<and>
         status (response_after (finish_saml_login_work self lib env form ctx)) = 403 \<and>
         returned (finish_saml_login_work self lib env form ctx)
           = Inr (''SAML: login_hooks failed: '' @ err_str e)"
proof -
  have "run_login_hooks self (now ctx) resp = Inl e"
    using run_hooks_fail_at [OF assms(6) assms(7) assms(8)]
    by (simp add: run_login_hooks_def case_prod_beta)
  then show ?thesis
    using assms(1-5)
    by (simp add: finish_saml_login_work_def Let_def acs_error_def response_error_status)
qed

lemma demo_token_valid:
  "validate_requestID (reqid demo_sp) None 2000 (in_response_to demo_assertion) = Inr True"
  by code_simp

text \<open>
  The theorem with a hook that raises, on a session that still holds the username and
  the attributes of an expired login: the session is empty afterwards.
\<close>

theorem finish_saml_login_work_hook_failure_witness:
  "session_after (finish_saml_login_work (add_login_hook demo_failing_hook demo_sp) demo_library None
       demo_form (demo_ctx stale_session 2000)) = [] \<and>
   status (response_after (finish_saml_login_work (add_login_hook demo_failing_hook demo_sp)
       demo_library None demo_form (demo_ctx stale_session 2000))) = 403 \<and>
   returned (finish_saml_login_work (add_login_hook demo_failing_hook demo_sp) demo_library None
       demo_form (demo_ctx stale_session 2000)) = Inr ''SAML: login_hooks failed: unknown user''"
proof -
  let ?sp = "add_login_hook demo_failing_hook demo_sp"
  let ?ctx = "demo_ctx stale_session 2000"
  have a1: "\<not> is_authenticated (session ?ctx) (now ?ctx)"
    by (simp add: is_authenticated_def is_authenticated_try_def dict_getitem_def py_ge_int_def
        demo_ctx_def stale_session_def)
  have a2: "form_SAMLResponse demo_form = Some ''signed-response''"
    by (simp add: demo_form_def)
  have a3: "validate_response demo_library ''signed-response'' (saml_certificate ?sp) (saml_audience ?sp)
      = Inr demo_assertion"
    by (simp add: demo_library_def demo_validate_response_def)
  have a4: "validate_requestID (reqid ?sp) None (now ?ctx) (in_response_to demo_assertion) = Inr True"
    using demo_token_valid by (simp add: add_login_hook_def demo_ctx_def)
  have a5: "issuer demo_assertion = saml_issuer ?sp"
    by (simp add: demo_assertion_def add_login_hook_def demo_sp_def SamlSP_init_def demo_config_def)
  have h: "login_hooks ?sp = [demo_failing_hook]"
    by (simp add: add_login_hook_def demo_sp_def SamlSP_init_def)
  have a6: "0 < length (login_hooks ?sp)"
    by (simp add: h)
  have a7: "run_hooks (take 0 (login_hooks ?sp))
           (fst (build_attrs_list ?sp (now ?ctx) (PStr (name_id demo_assertion)) demo_assertion),
            PDict (snd (build_attrs_list ?sp (now ?ctx) (PStr (name_id demo_assertion)) demo_assertion)))
         = Inr (fst (build_attrs_list ?sp (now ?ctx) (PStr (name_id demo_assertion)) demo_assertion),
            PDict (snd (build_attrs_list ?sp (now ?ctx) (PStr (name_id demo_assertion)) demo_assertion)))"
    by simp
  have a8: "(login_hooks ?sp ! 0)
       (fst (build_attrs_list ?sp (now ?ctx) (PStr (name_id demo_assertion)) demo_assertion),
        PDict (snd (build_attrs_list ?sp (now ?ctx) (PStr (name_id demo_assertion)) demo_assertion)))
      = Inl (PyException ''unknown user'')"
    by (simp add: h demo_failing_hook_def)
  show ?thesis
    using finish_saml_login_work_hook_failure [OF a1 a2 a3 a4 a5 a6 a7 a8]
    by simp
qed

subsection \<open>The plugin\<close>

lemma set_header_status: "status (set_header name v r) = status r"
  by (simp add: set_header_def)

lemma set_no_cache_headers_status: "status (set_no_cache_headers r) = status r"
  by (simp add: set_no_cache_headers_def add_header_def)

lemma filter_append_header:
  "name \<noteq> n \<Longrightarrow>
     filter (\<lambda>h. fst h = n) (append_header name v hs) = filter (\<lambda>h. fst h = n) hs"
  by (induction hs) auto

lemma filter_replace_header:
  "filter (\<lambda>h. fst h = name) (replace_header name v hs) = [(name, v)]"
proof (induction hs)
  case Nil
  then show ?case by simp
next
  case (Cons h hs)
  have "filter (\<lambda>h. fst h = name) (filter (\<lambda>x. fst x \<noteq> name) hs) = []"
    by (induction hs) auto
  with Cons show ?case by simp
qed

lemma set_no_cache_headers_location:
  "filter (\<lambda>h. fst h = ''Location'') (headers (set_no_cache_headers r))
     = filter (\<lambda>h. fst h = ''Location'') (headers r)"
  by (simp add: set_no_cache_headers_def add_header_def filter_append_header)

lemma set_header_location:
  "filter (\<lambda>h. fst h = name) (headers (set_header name v r)) = [(name, v)]"
  by (simp add: set_header_def filter_replace_header)

lemma apply_plugin_unfold:
  "apply_plugin self lib f rt =
     apply_require_authn self lib (apply_prefix_attrs self (apply_require_attrs f rt) rt) rt"
  by (simp add: apply_plugin_def apply_checks_def)

text \<open>
  Claim C9. In opt-out mode, on every route whose configuration does not set
  \<open>authn=False\<close>, whatever its attribute requirements, a request from a session that is
  not authenticated is answered with status 302 (not 401) and one \<open>Location\<close> header:
  the URL \<open>get_request_redirect_url\<close> builds for the IdP endpoint, with the relay state
  \<open>urlencode({'next': request.url})\<close>.
\<close>

theorem apply_plugin_unauthenticated_redirect:
  assumes "authn_all_routes self"
    and "authn rt \<noteq> Some (PBool False)"
    and "\<not> is_authenticated (session ctx) (now ctx)"
  shows "\<exists>r. apply_plugin self lib f rt ctx = Reply (ReturnStr []) r \<and>
             status r = 302 \<and> status r \<noteq> 401 \<and>
             filter (\<lambda>h. fst h = ''Location'') (headers r) =
               [(''Location'',
                 get_request_redirect_url lib (saml_endpoint (saml self)) (saml_audience (saml self))
                   (acs_url (saml self)) (force_reauth (saml self))
                   (new_requestID (reqid (saml self)) (now ctx) (urandom ctx) (token_urlsafe ctx))
                   (Some (urlencode lib [(''next'', url ctx)])))]"
proof -
  have eq: "apply_plugin self lib f rt ctx =
      initiate_login (saml self) lib False None [(''next'', url ctx)] ctx"
    using assms by (simp add: apply_plugin_unfold apply_require_authn_def auth_required_def)
  show ?thesis
    unfolding eq
    by (simp add: initiate_login_def Let_def set_no_cache_headers_status set_header_status
        set_no_cache_headers_location set_header_location)
qed

text \<open>
  The theorem on a route with an attribute requirement and an empty session.
\<close>

theorem apply_plugin_unauthenticated_redirect_witness:
  "\<exists>r. apply_plugin demo_auth demo_library demo_handler
          \<lparr>rule = ''/admin'', authn = None, authz = Some [(''role'', PStr ''admin'')]\<rparr>
          (demo_ctx [] 2000) = Reply (ReturnStr []) r \<and>
        status r = 302 \<and>
        filter (\<lambda>h. fst h = ''Location'') (headers r) =
          [(''Location'',
            ''https://idp.example/sso?SAMLRequest='' @ noidp_new_requestID (reqid demo_sp) 2000 ''0123456789abcdef''
              @ ''&RelayState=next=https://sp.example/admin'')]"
proof -
  have a: "authn_all_routes demo_auth"
    "authn \<lparr>rule = ''/admin'', authn = None, authz = Some [(''role'', PStr ''admin'')]\<rparr> \<noteq> Some (PBool False)"
    "\<not> is_authenticated (session (demo_ctx [] 2000)) (now (demo_ctx [] 2000))"
    by (simp_all add: demo_auth_def demo_ctx_def is_authenticated_def is_authenticated_try_def
        dict_getitem_def)
  from apply_plugin_unauthenticated_redirect [OF a, of demo_library demo_handler]
  obtain r where r:
    "apply_plugin demo_auth demo_library demo_handler
          \<lparr>rule = ''/admin'', authn = None, authz = Some [(''role'', PStr ''admin'')]\<rparr>
          (demo_ctx [] 2000) = Reply (ReturnStr []) r"
    "status r = 302"
    "filter (\<lambda>h. fst h = ''Location'') (headers r) =
       [(''Location'',
         get_request_redirect_url demo_library (saml_endpoint (saml demo_auth))
           (saml_audience (saml demo_auth)) (acs_url (saml demo_auth)) (force_reauth (saml demo_auth))
           (new_requestID (reqid (saml demo_auth)) (now (demo_ctx [] 2000)) (urandom (demo_ctx [] 2000))
              (token_urlsafe (demo_ctx [] 2000)))
           (Some (urlencode demo_library [(''next'', url (demo_ctx [] 2000))])))]"
    by blast
  have u: "get_request_redirect_url demo_library (saml_endpoint (saml demo_auth))
           (saml_audience (saml demo_auth)) (acs_url (saml demo_auth)) (force_reauth (saml demo_auth))
           (new_requestID (reqid (saml demo_auth)) (now (demo_ctx [] 2000)) (urandom (demo_ctx [] 2000))
              (token_urlsafe (demo_ctx [] 2000)))
           (Some (urlencode demo_library [(''next'', url (demo_ctx [] 2000))]))
      = ''https://idp.example/sso?SAMLRequest='' @ noidp_new_requestID (reqid demo_sp) 2000 ''0123456789abcdef''
              @ ''&RelayState=next=https://sp.example/admin''"
    by (simp add: demo_auth_def demo_sp_def SamlSP_init_def demo_config_def ReqID_init_def
        demo_library_def demo_redirect_url_def demo_urlencode_def demo_ctx_def new_requestID_def)
  show ?thesis
    using r unfolding u by blast
qed

end
